theory Spec2Isabelle
  imports Main "HOL-Library.Word" "HOL-Library.Sublist"
begin

unbundle bit_operations_syntax

section \<open>Status model\<close>

text \<open>
  The values of \<open>reconciler.Status\<close> that \<open>newStatus\<close> of the test driver accepts:
  the five lifecycle states of a reconciliation job.
\<close>

datatype status = NotStarted | Running | Failed | Error | Success

text \<open>
  \<open>finalStatus\<close> of the test driver: the callback loop stops at the first message
  whose status satisfies it.
\<close>

definition finalStatus :: "status \<Rightarrow> bool" where
  "finalStatus s = (s = Error \<or> s = Success)"

section \<open>The monitoring integration action (package rma)\<close>

subsection \<open>Values, errors and Helm data\<close>

text \<open>
  Go strings and byte slices are sequences of bytes; an Isabelle \<open>char\<close> is one byte.
\<close>

type_synonym bytes = string

text \<open>
  A value of type \<open>interface{}\<close> stored in a configuration: a string, or a value
  of another dynamic type (a float is kept as its 64 bits; \<open>AComposite\<close> is a map or
  a slice).
\<close>

datatype any = AString string | ABool bool | AInt int | AFloat "64 word" | ANil | AComposite

text \<open>
  Go errors. \<open>ErrReleaseNotFound\<close> is the sentinel \<open>driver.ErrReleaseNotFound\<close>,
  compared by identity in the source; \<open>ErrorString\<close> is an error made by
  \<open>errors.New\<close> or \<open>fmt.Errorf\<close> with its message; \<open>WithMessage\<close> is an error
  wrapped by \<open>errors.Wrapf\<close>, \<open>errors.Wrap\<close>, \<open>errors.WithMessage\<close> or
  \<open>errors.WithMessagef\<close>; \<open>External\<close> is any other error of a collaborator.
\<close>

datatype error =
    ErrReleaseNotFound
  | ErrorString string
  | WithMessage error string
  | External string

text \<open>
  A function that can panic returns \<open>Panics\<close> in place of a value.
\<close>

datatype 'a result = Returns 'a | Panics

definition RmiChartName :: string where
  "RmiChartName = ''rmi''"

definition RmiChartURLConfig :: string where
  "RmiChartURLConfig = ''rmi.chartUrl''"

definition RmiNamespaceConfig :: string where
  "RmiNamespaceConfig = ''rmi.namespace''"

definition RmiVmalertGroupsNum :: string where
  "RmiVmalertGroupsNum = ''rmi.vmalertGroupsNum''"

definition DefaultVMAlertGroupsNum :: int where
  "DefaultVMAlertGroupsNum = 1"

definition StatusDeployed :: string where
  "StatusDeployed = ''deployed''"

text \<open>
  The parts of Helm's \<open>chart.Chart\<close> and \<open>release.Release\<close> that the action reads.
  A pointer field that the source dereferences is an \<open>option\<close>: \<open>None\<close> is nil.
\<close>

record chart_metadata =
  metadata_Version :: string

record helm_chart =
  chart_Metadata :: "chart_metadata option"

record release_info =
  info_Status :: string

record release =
  release_Version :: int
  release_Chart :: "helm_chart option"
  release_Info :: "release_info option"

record task_metadata =
  InstanceID :: string
  GlobalAccountID :: string
  SubAccountID :: string
  ShootName :: string
  ServicePlanName :: string
  Region :: string

datatype operation_type =
    OperationTypeReconcile
  | OperationTypeDelete
  | OperationTypeOther string

record task =
  task_Metadata :: task_metadata
  task_Type :: operation_type

text \<open>
  The override map that \<open>generateOverrideMap\<close> builds for Helm: its three entries
  \<open>runtime\<close>, \<open>auth\<close> and \<open>vmalert\<close>.
\<close>

record overrides =
  runtime_instanceID :: string
  runtime_globalAccountID :: string
  runtime_subaccountID :: string
  runtime_shootName :: string
  runtime_planName :: string
  runtime_region :: string
  runtime_dnsDomain :: string
  auth_username :: string
  auth_password :: string
  vmalert_group :: int

text \<open>
  A handle of a Helm action configuration (\<open>*action.Configuration\<close>).
\<close>

type_synonym helm_cfg = nat

text \<open>
  The calls the action makes to its collaborators (Helm, the Kubernetes client, the
  HTTP client, the random source), in the order it makes them. Calls to the logger are
  not recorded: they do not change the control flow.
\<close>

datatype event =
    CallHelmActionConfiguration string
  | CallHelmHistory helm_cfg string
  | CallKubeDeleteResource string string string
  | CallKubeGetHost
  | CallKubernetesClientSet
  | CallKubeGetSecret string string
  | CallHttpDo string
  | CallCryptoRandInt nat
  | CallHelmInstall helm_cfg string string helm_chart overrides
  | CallHelmUpgrade helm_cfg string string helm_chart overrides
  | CallHelmUninstall helm_cfg string

text \<open>
  The response of the HTTP client: the status code, the status line and what
  \<open>io.ReadAll\<close> returns on the body. \<open>io.ReadAll\<close> never returns a nil slice.
\<close>

record http_response =
  StatusCode :: int
  Status :: string
  ReadAllBody :: "error + bytes"

text \<open>
  A Kubernetes secret: its \<open>Data\<close> map, nil or not.
\<close>

record secret =
  secret_Data :: "(string \<rightharpoonup> bytes) option"

text \<open>
  What the collaborators answer. Each field is the answer to one call of the source:
  \<^item> \<open>helmActionConfiguration\<close>: \<open>a.client.HelmActionConfiguration(namespace)\<close>,
    an error, or a configuration that may be nil;
  \<^item> \<open>helmHistory\<close>: \<open>action.NewHistory(cfg).Run(releaseName)\<close>, the releases and
    the error (\<open>None\<close> is nil);
  \<^item> \<open>kubeDeleteResource\<close>: \<open>context.KubeClient.DeleteResource\<close> (\<open>Run\<close> only
    logs its error);
  \<^item> \<open>kubeGetHost\<close>: \<open>context.KubeClient.GetHost()\<close>;
  \<^item> \<open>urlParseHostname\<close>: \<open>url.Parse(host)\<close> followed by \<open>Hostname()\<close>, \<open>None\<close>
    when \<open>url.Parse\<close> fails (it then returns a nil URL);
  \<^item> \<open>httpNewRequest\<close>: \<open>http.NewRequestWithContext\<close>, its error if any;
  \<^item> \<open>httpDo\<close>: \<open>a.http.Do(req)\<close> for a request to the given URL;
  \<^item> \<open>loadArchive\<close>: \<open>loader.LoadArchive\<close>;
  \<^item> \<open>kubernetesClientSet\<close>: \<open>a.client.KubernetesClientSet()\<close>, its error if any;
  \<^item> \<open>kubeGetSecret\<close>: \<open>Secrets(namespace).Get(ctx, name, ...)\<close>;
  \<^item> \<open>cryptoRandInt\<close>: the \<open>i\<close>-th call of \<open>rand.Int(rand.Reader, max)\<close>;
  \<^item> \<open>sha256Sum\<close>: \<open>sha256.Sum256\<close>, 32 bytes;
  \<^item> \<open>randIntn\<close>: \<open>mrand.Intn(n)\<close> right after \<open>mrand.Seed(seed)\<close>, for \<open>0 < n\<close>;
  \<^item> \<open>helmInstall\<close>, \<open>helmUpgrade\<close>, \<open>helmUninstall\<close>: the error of the Helm
    action's \<open>Run\<close>, if any.
\<close>

record env =
  helmActionConfiguration :: "string \<Rightarrow> error + helm_cfg option"
  helmHistory :: "helm_cfg \<Rightarrow> string \<Rightarrow> release list \<times> error option"
  kubeDeleteResource :: "string \<Rightarrow> string \<Rightarrow> string \<Rightarrow> error option"
  kubeGetHost :: string
  urlParseHostname :: "string \<Rightarrow> string option"
  httpNewRequest :: "string \<Rightarrow> error option"
  httpDo :: "string \<Rightarrow> error + http_response"
  loadArchive :: "bytes \<Rightarrow> error + helm_chart"
  kubernetesClientSet :: "error option"
  kubeGetSecret :: "string \<Rightarrow> string \<Rightarrow> error + secret"
  cryptoRandInt :: "nat \<Rightarrow> int \<Rightarrow> error + nat"
  sha256Sum :: "bytes \<Rightarrow> bytes"
  randIntn :: "int \<Rightarrow> int \<Rightarrow> int"
  helmInstall :: "helm_cfg \<Rightarrow> string \<Rightarrow> string \<Rightarrow> helm_chart \<Rightarrow> overrides \<Rightarrow> error option"
  helmUpgrade :: "helm_cfg \<Rightarrow> string \<Rightarrow> string \<Rightarrow> helm_chart \<Rightarrow> overrides \<Rightarrow> error option"
  helmUninstall :: "helm_cfg \<Rightarrow> string \<Rightarrow> error option"

text \<open>
  The mutable state: the \<open>archives\<close> map of the \<open>IntegrationAction\<close>, the
  \<open>Configuration\<close> map of the task, and the calls made so far. An entry of
  \<open>archives\<close> is what \<open>io.ReadAll\<close> returned, so it is never nil, and
  \<open>a.archives[chartURL] == nil\<close> holds exactly when the key is absent. The
  configuration is written only after \<open>Run\<close> has read two non-empty strings from it,
  so the map that is written to is not nil. The mutex of \<open>fetchChart\<close> is not
  modelled: the calls of the model follow one another.
\<close>

record action_state =
  archives :: "string \<rightharpoonup> bytes"
  configuration :: "string \<rightharpoonup> any"
  events :: "event list"

definition call :: "event \<Rightarrow> action_state \<Rightarrow> action_state" where
  "call ev st = st\<lparr>events := events st @ [ev]\<rparr>"

subsection \<open>Configuration access\<close>

definition getConfigString :: "(string \<rightharpoonup> any) \<Rightarrow> string \<Rightarrow> string" where
  "getConfigString config key =
     (case config key of
        None \<Rightarrow> []
      | Some val \<Rightarrow> (case val of AString rv \<Rightarrow> rv | _ \<Rightarrow> []))"

definition setAuthCredentialOverrides :: "string \<Rightarrow> string \<Rightarrow> action_state \<Rightarrow> action_state" where
  "setAuthCredentialOverrides username password st =
     st\<lparr>configuration := (configuration st)
        (''vmuser.username'' \<mapsto> AString username, ''vmuser.password'' \<mapsto> AString password)\<rparr>"

subsection \<open>Releases and chart versions\<close>

fun findLatestRevision_from :: "int \<Rightarrow> release option \<Rightarrow> release list \<Rightarrow> release option" where
  "findLatestRevision_from revision rel [] = rel"
| "findLatestRevision_from revision rel (r # rs) =
     (if release_Version r > revision
      then findLatestRevision_from (release_Version r) (Some r) rs
      else findLatestRevision_from revision rel rs)"

definition findLatestRevision :: "release list \<Rightarrow> release option" where
  "findLatestRevision releases = findLatestRevision_from (- 1) None releases"

text \<open>
  The expression \<open>chartVerExpr\<close> is \<open>rmi-([a-zA-Z0-9-.]+)\.tgz$\<close>. A match that starts
  at the head of \<open>s\<close> is \<open>rmi-\<close>, then one or more characters of the class, then
  \<open>.tgz\<close> at the end of the text: the group is all that lies between.
  \<open>FindStringSubmatch\<close> returns the leftmost match.
\<close>

definition isVersionChar :: "char \<Rightarrow> bool" where
  "isVersionChar c =
     (let n = (of_char c :: nat)
      in (97 \<le> n \<and> n \<le> 122) \<or> (65 \<le> n \<and> n \<le> 90) \<or> (48 \<le> n \<and> n \<le> 57)
         \<or> c = CHR ''-'' \<or> c = CHR ''.'')"

definition matchChartVerExprAt :: "string \<Rightarrow> string option" where
  "matchChartVerExprAt s =
     (if take 4 s = RmiChartName @ ''-'' then
        let body = drop 4 s;
            ver = take (length body - 4) body
        in if 4 \<le> length body \<and> drop (length body - 4) body = ''.tgz''
              \<and> ver \<noteq> [] \<and> list_all isVersionChar ver
           then Some ver else None
      else None)"

fun findChartVerExpr :: "string \<Rightarrow> string option" where
  "findChartVerExpr [] = None"
| "findChartVerExpr (c # cs) =
     (case matchChartVerExprAt (c # cs) of
        Some ver \<Rightarrow> Some ver
      | None \<Rightarrow> findChartVerExpr cs)"

definition getChartVersionFromURL :: "string \<Rightarrow> string" where
  "getChartVersionFromURL chartURL =
     (case findChartVerExpr chartURL of None \<Rightarrow> [] | Some ver \<Rightarrow> ver)"

subsection \<open>The vmalert group\<close>

text \<open>
  \<open>strconv.Atoi\<close> on a 64-bit platform: an optional sign, then one or more decimal
  digits, and a value that fits \<open>int\<close>; \<open>None\<close> is a non-nil error.
\<close>

definition isDigit :: "char \<Rightarrow> bool" where
  "isDigit c = (48 \<le> (of_char c :: nat) \<and> (of_char c :: nat) \<le> 57)"

definition digitsValue :: "string \<Rightarrow> int" where
  "digitsValue ds = foldl (\<lambda>n ch. n * 10 + (of_char ch - 48)) 0 ds"

definition Atoi :: "string \<Rightarrow> int option" where
  "Atoi s =
     (let neg = (s \<noteq> [] \<and> hd s = CHR ''-'');
          ds = (if s \<noteq> [] \<and> (hd s = CHR ''-'' \<or> hd s = CHR ''+'') then tl s else s)
      in if ds = [] \<or> \<not> list_all isDigit ds then None
         else let n = (if neg then - digitsValue ds else digitsValue ds)
              in if n < - (2 ^ 63) \<or> 2 ^ 63 - 1 < n then None else Some n)"

text \<open>
  \<open>binary.LittleEndian.Uint64\<close> on the first eight bytes of a slice.
\<close>

definition littleEndianUint64 :: "bytes \<Rightarrow> 64 word" where
  "littleEndianUint64 b = foldr (\<lambda>x acc. of_char x OR push_bit 8 acc) (take 8 b) 0"

text \<open>
  \<open>mrand.Intn(n)\<close> panics when \<open>n \<le> 0\<close>.
\<close>

definition generateVmalertGroup :: "env \<Rightarrow> string \<Rightarrow> string \<Rightarrow> int result" where
  "generateVmalertGroup e ident num =
     (let groups = (case Atoi num of None \<Rightarrow> DefaultVMAlertGroupsNum | Some n \<Rightarrow> n);
          csum = sha256Sum e ident;
          seed = sint (littleEndianUint64 (take 8 csum))
      in if groups \<le> 0 then Panics else Returns (randIntn e seed groups))"

subsection \<open>Overrides\<close>

definition TrimPrefix :: "string \<Rightarrow> string \<Rightarrow> string" where
  "TrimPrefix s p = (if take (length p) s = p then drop (length p) s else s)"

text \<open>
  \<open>getDomain\<close> drops the error of \<open>url.Parse\<close> and calls \<open>Hostname()\<close> on its
  result: on a nil URL that is a nil-pointer panic.
\<close>

definition getDomain :: "env \<Rightarrow> string \<Rightarrow> string result" where
  "getDomain e host =
     (case urlParseHostname e host of
        None \<Rightarrow> Panics
      | Some hostname \<Rightarrow> Returns (TrimPrefix hostname ''api.''))"

definition generateOverrideMap ::
  "env \<Rightarrow> task \<Rightarrow> string \<Rightarrow> string \<Rightarrow> string \<Rightarrow> action_state \<Rightarrow> overrides result \<times> action_state" where
  "generateOverrideMap e t username password groupsNum st =
     (let metadata = task_Metadata t;
          st1 = call CallKubeGetHost st;
          host = kubeGetHost e
      in case getDomain e host of
           Panics \<Rightarrow> (Panics, st1)
         | Returns domain \<Rightarrow>
             (case generateVmalertGroup e (InstanceID metadata) groupsNum of
                Panics \<Rightarrow> (Panics, st1)
              | Returns grp \<Rightarrow>
                  (Returns \<lparr>runtime_instanceID = InstanceID metadata,
                            runtime_globalAccountID = GlobalAccountID metadata,
                            runtime_subaccountID = SubAccountID metadata,
                            runtime_shootName = ShootName metadata,
                            runtime_planName = ServicePlanName metadata,
                            runtime_region = Region metadata,
                            runtime_dnsDomain = domain,
                            auth_username = username,
                            auth_password = password,
                            vmalert_group = grp\<rparr>, st1)))"

subsection \<open>Passwords\<close>

definition letters :: string where
  "letters = ''0123456789ABCDEFGHIJKLMNOPQRSTUVWXYZabcdefghijklmnopqrstuvwxyz''"

text \<open>
  The loop of \<open>generatePassword\<close>: \<open>i\<close> is the loop counter, \<open>k\<close> the number of
  rounds left, \<open>ret\<close> the characters written so far. An index outside \<open>letters\<close>
  panics.
\<close>

fun generatePassword_from ::
  "env \<Rightarrow> nat \<Rightarrow> nat \<Rightarrow> string \<Rightarrow> action_state \<Rightarrow> (error + string) result \<times> action_state" where
  "generatePassword_from e i 0 ret st = (Returns (Inr ret), st)"
| "generatePassword_from e i (Suc k) ret st =
     (let st1 = call (CallCryptoRandInt i) st
      in case cryptoRandInt e i (int (length letters)) of
           Inl err \<Rightarrow> (Returns (Inl err), st1)
         | Inr num \<Rightarrow>
             if num < length letters
             then generatePassword_from e (Suc i) k (ret @ [letters ! num]) st1
             else (Panics, st1))"

definition generatePassword ::
  "env \<Rightarrow> nat \<Rightarrow> action_state \<Rightarrow> (error + string) result \<times> action_state" where
  "generatePassword e n st = generatePassword_from e 0 n [] st"

definition fetchPassword ::
  "env \<Rightarrow> string \<Rightarrow> string \<Rightarrow> action_state \<Rightarrow> (error + string) \<times> action_state" where
  "fetchPassword e rel namespace st =
     (let st1 = call CallKubernetesClientSet st
      in case kubernetesClientSet e of
           Some err \<Rightarrow> (Inl err, st1)
         | None \<Rightarrow>
             let name = ''vmuser-'' @ RmiChartName @ ''-'' @ rel;
                 st2 = call (CallKubeGetSecret namespace name) st1
             in (case kubeGetSecret e namespace name of
                  Inl err \<Rightarrow> (Inl err, st2)
                | Inr sec \<Rightarrow>
                    (case secret_Data sec of
                       None \<Rightarrow> (Inl (ErrorString ''secret data is empty''), st2)
                     | Some data \<Rightarrow>
                         let passwordData = (case data ''password'' of None \<Rightarrow> [] | Some b \<Rightarrow> b)
                         in if length passwordData = 0
                            then (Inl (ErrorString ''missing/empty auth credentials''), st2)
                            else (Inr passwordData, st2))))"

subsection \<open>The chart cache\<close>

definition fetchChart ::
  "env \<Rightarrow> string \<Rightarrow> action_state \<Rightarrow> (error + helm_chart) \<times> action_state" where
  "fetchChart e chartURL st =
     (case archives st chartURL of
        Some archive \<Rightarrow> (loadArchive e archive, st)
      | None \<Rightarrow>
          (case httpNewRequest e chartURL of
             Some err \<Rightarrow> (Inl err, st)
           | None \<Rightarrow>
               let st1 = call (CallHttpDo chartURL) st
               in (case httpDo e chartURL of
                    Inl err \<Rightarrow> (Inl err, st1)
                  | Inr resp \<Rightarrow>
                      (case ReadAllBody resp of
                         Inl err \<Rightarrow> (Inl err, st1)
                       | Inr archive \<Rightarrow>
                           if StatusCode resp \<noteq> 200
                           then (Inl (ErrorString (''http status '' @ Status resp)), st1)
                           else (loadArchive e archive,
                                 st1\<lparr>archives := (archives st1)(chartURL \<mapsto> archive)\<rparr>)))))"

subsection \<open>Install, upgrade, delete\<close>

definition install ::
  "env \<Rightarrow> task \<Rightarrow> helm_cfg \<Rightarrow> string \<Rightarrow> string \<Rightarrow> string \<Rightarrow> string \<Rightarrow> action_state
   \<Rightarrow> error option result \<times> action_state" where
  "install e t cfg chartURL releaseName namespace groupsNum st =
     (case fetchChart e chartURL st of
        (Inl err, st1) \<Rightarrow>
          (Returns (Some (WithMessage err (''while fetching rmi chart from '' @ chartURL))), st1)
      | (Inr chart, st1) \<Rightarrow>
          let username = InstanceID (task_Metadata t)
          in (case generatePassword e 16 st1 of
               (Panics, st2) \<Rightarrow> (Panics, st2)
             | (Returns (Inl err), st2) \<Rightarrow>
                 (Returns (Some (WithMessage err ''while generating new auth password'')), st2)
             | (Returns (Inr password), st2) \<Rightarrow>
                 (case generateOverrideMap e t username password groupsNum st2 of
                    (Panics, st3) \<Rightarrow> (Panics, st3)
                  | (Returns ovr, st3) \<Rightarrow>
                      let st4 = call (CallHelmInstall cfg releaseName namespace chart ovr) st3
                      in (case helmInstall e cfg releaseName namespace chart ovr of
                           Some err \<Rightarrow>
                             (Returns (Some (WithMessage err
                                (''helm install '' @ RmiChartName @ ''-'' @ releaseName @ '' failed''))), st4)
                         | None \<Rightarrow>
                             (Returns None, setAuthCredentialOverrides username password st4)))))"

definition upgrade ::
  "env \<Rightarrow> task \<Rightarrow> helm_cfg \<Rightarrow> string \<Rightarrow> string \<Rightarrow> string \<Rightarrow> string \<Rightarrow> bool \<Rightarrow> action_state
   \<Rightarrow> error option result \<times> action_state" where
  "upgrade e t cfg chartURL releaseName namespace groupsNum skipHelmUpgrade st =
     (let username = InstanceID (task_Metadata t)
      in case fetchPassword e releaseName namespace st of
           (Inl err, st1) \<Rightarrow>
             (Returns (Some (WithMessage err ''failed to fetch auth credentials from secret'')), st1)
         | (Inr password, st1) \<Rightarrow>
             let st2 = setAuthCredentialOverrides username password st1
             in if skipHelmUpgrade then (Returns None, st2)
                else
                  (case fetchChart e chartURL st2 of
                     (Inl err, st3) \<Rightarrow>
                       (Returns (Some (WithMessage err (''while fetching rmi chart from '' @ chartURL))), st3)
                   | (Inr chart, st3) \<Rightarrow>
                       (case generateOverrideMap e t username password groupsNum st3 of
                          (Panics, st4) \<Rightarrow> (Panics, st4)
                        | (Returns ovr, st4) \<Rightarrow>
                            let st5 = call (CallHelmUpgrade cfg releaseName namespace chart ovr) st4
                            in (case helmUpgrade e cfg releaseName namespace chart ovr of
                                 Some err \<Rightarrow>
                                   (Returns (Some (WithMessage err
                                      (''helm upgrade '' @ RmiChartName @ ''-'' @ releaseName @ '' failed''))), st5)
                               | None \<Rightarrow> (Returns None, st5)))))"

definition delete ::
  "env \<Rightarrow> helm_cfg \<Rightarrow> string \<Rightarrow> action_state \<Rightarrow> error option result \<times> action_state" where
  "delete e cfg releaseName st =
     (let st1 = call (CallHelmUninstall cfg releaseName) st
      in case helmUninstall e cfg releaseName of
           Some err \<Rightarrow>
             (Returns (Some (WithMessage err
                (''helm delete '' @ RmiChartName @ ''-'' @ releaseName @ '' failed''))), st1)
         | None \<Rightarrow> (Returns None, st1))"

subsection \<open>Run\<close>

text \<open>
  The version read from the latest release: empty unless the release has a chart with
  metadata.
\<close>

definition releaseVersionOf :: "release \<Rightarrow> string" where
  "releaseVersionOf helmRelease =
     (case release_Chart helmRelease of
        None \<Rightarrow> []
      | Some c \<Rightarrow> (case chart_Metadata c of None \<Rightarrow> [] | Some m \<Rightarrow> metadata_Version m))"

text \<open>
  The value of the variable \<open>skipHelmUpgrade\<close> of \<open>Run\<close> after its \<open>switch\<close>.
  \<open>helmRelease\<close> is what \<open>findLatestRevision\<close> returned; the source reads its
  \<open>Chart\<close> field without a nil check. The first case of the \<open>switch\<close> does not read
  \<open>helmRelease.Info\<close>; the second reads \<open>helmRelease.Info.Status\<close> when the two
  versions are equal, and the default case passes it to the logger: both panic on a nil
  \<open>Info\<close>.
\<close>

definition skipHelmUpgrade :: "string \<Rightarrow> release option \<Rightarrow> bool result" where
  "skipHelmUpgrade upgradeVersion latest =
     (case latest of
        None \<Rightarrow> Panics
      | Some helmRelease \<Rightarrow>
          let releaseVersion = releaseVersionOf helmRelease
          in if upgradeVersion = [] \<or> releaseVersion = [] then Returns False
             else if upgradeVersion = releaseVersion then
               (case release_Info helmRelease of
                  None \<Rightarrow> Panics
                | Some info \<Rightarrow> Returns (info_Status info = StatusDeployed))
             else
               (case release_Info helmRelease of
                  None \<Rightarrow> Panics
                | Some info \<Rightarrow> Returns False))"

definition Run :: "env \<Rightarrow> task \<Rightarrow> action_state \<Rightarrow> error option result \<times> action_state" where
  "Run e t st =
     (let chartURL = getConfigString (configuration st) RmiChartURLConfig
      in if chartURL = []
         then (Returns (Some (ErrorString (''missing required configuration: '' @ RmiChartURLConfig))), st)
         else
           let namespace = getConfigString (configuration st) RmiNamespaceConfig
           in if namespace = []
              then (Returns (Some (ErrorString (''missing required configuration: '' @ RmiNamespaceConfig))), st)
              else
                let groupsNum = getConfigString (configuration st) RmiVmalertGroupsNum;
                    releaseName = ShootName (task_Metadata t);
                    st1 = call (CallHelmActionConfiguration namespace) st
                in (case helmActionConfiguration e namespace of
                     Inl err \<Rightarrow> (Returns (Some err), st1)
                   | Inr None \<Rightarrow>
                       (Returns (Some (ErrorString ''Could not get helm action configuration'')), st1)
                   | Inr (Some cfg) \<Rightarrow>
                       let st2 = call (CallHelmHistory cfg releaseName) st1;
                           (releases, err) = helmHistory e cfg releaseName
                       in if err \<noteq> None \<and> err \<noteq> Some ErrReleaseNotFound
                          then (Returns (Some (WithMessage (the err)
                                  (''while querying rmi helm history for release '' @ releaseName))), st2)
                          else
                            let helmRelease = findLatestRevision releases
                            in (case task_Type t of
                                 OperationTypeReconcile \<Rightarrow>
                                   let st3 = call (CallKubeDeleteResource ''deployment'' ''avs-bridge'' ''kyma-system'') st2
                                   in if err = Some ErrReleaseNotFound
                                      then install e t cfg chartURL releaseName namespace groupsNum st3
                                      else
                                        (case skipHelmUpgrade (getChartVersionFromURL chartURL) helmRelease of
                                           Panics \<Rightarrow> (Panics, st3)
                                         | Returns skip \<Rightarrow>
                                             upgrade e t cfg chartURL releaseName namespace groupsNum skip st3)
                               | OperationTypeDelete \<Rightarrow>
                                   if err = None then delete e cfg releaseName st2
                                   else (Returns None, st2)
                               | OperationTypeOther other \<Rightarrow> (Returns None, st2))))"

subsection \<open>A sample run\<close>

text \<open>
  A task, a state and a set of answers of the collaborators on which the properties
  below are evaluated: the release \<open>rmi-1.2.3\<close> is deployed, the chart server answers
  200, and the secret holds a password. In \<open>sampleEnvNoCluster\<close> the Kubernetes
  client set cannot be created, in \<open>sampleEnvNoSecret\<close> the secret cannot be read, in
  \<open>sampleEnvNilSecretData\<close> it has no data, in \<open>sampleEnvEmptyPassword\<close> its
  password is empty.
\<close>

definition sampleChart :: helm_chart where
  "sampleChart = \<lparr>chart_Metadata = Some \<lparr>metadata_Version = ''1.2.3''\<rparr>\<rparr>"

definition sampleRelease :: release where
  "sampleRelease =
     \<lparr>release_Version = 1, release_Chart = Some sampleChart,
      release_Info = Some \<lparr>info_Status = ''deployed''\<rparr>\<rparr>"

definition sampleEnv :: env where
  "sampleEnv =
     \<lparr>helmActionConfiguration = (\<lambda>namespace. Inr (Some 0)),
      helmHistory = (\<lambda>cfg releaseName. ([sampleRelease], None)),
      kubeDeleteResource = (\<lambda>kind name namespace. None),
      kubeGetHost = ''https://api.shoot.example.org'',
      urlParseHostname = (\<lambda>host. Some (drop 8 host)),
      httpNewRequest = (\<lambda>url. None),
      httpDo = (\<lambda>url. Inr \<lparr>StatusCode = 200, Status = ''200 OK'', ReadAllBody = Inr ''tgz''\<rparr>),
      loadArchive = (\<lambda>archive. Inr sampleChart),
      kubernetesClientSet = None,
      kubeGetSecret = (\<lambda>namespace name. Inr \<lparr>secret_Data = Some [''password'' \<mapsto> ''s3cret'']\<rparr>),
      cryptoRandInt = (\<lambda>i max. Inr (i mod 62)),
      sha256Sum = (\<lambda>b. replicate 32 (CHR 0x01)),
      randIntn = (\<lambda>seed n. seed mod n),
      helmInstall = (\<lambda>cfg releaseName namespace chart ovr. None),
      helmUpgrade = (\<lambda>cfg releaseName namespace chart ovr. None),
      helmUninstall = (\<lambda>cfg releaseName. None)\<rparr>"

definition sampleEnvNoCluster :: env where
  "sampleEnvNoCluster = sampleEnv\<lparr>kubernetesClientSet := Some (External ''cluster unreachable'')\<rparr>"

definition sampleEnvNoSecret :: env where
  "sampleEnvNoSecret = sampleEnv\<lparr>kubeGetSecret := (\<lambda>namespace name. Inl (External ''secret not found''))\<rparr>"

definition sampleEnvNilSecretData :: env where
  "sampleEnvNilSecretData = sampleEnv\<lparr>kubeGetSecret := (\<lambda>namespace name. Inr \<lparr>secret_Data = None\<rparr>)\<rparr>"

definition sampleEnvEmptyPassword :: env where
  "sampleEnvEmptyPassword =
     sampleEnv\<lparr>kubeGetSecret := (\<lambda>namespace name. Inr \<lparr>secret_Data = Some [''password'' \<mapsto> []]\<rparr>)\<rparr>"

definition sampleTask :: task where
  "sampleTask =
     \<lparr>task_Metadata =
        \<lparr>InstanceID = ''instance-1'', GlobalAccountID = ''ga'', SubAccountID = ''sa'',
         ShootName = ''shoot-1'', ServicePlanName = ''plan'', Region = ''eu''\<rparr>,
      task_Type = OperationTypeReconcile\<rparr>"

definition sampleState :: "string \<Rightarrow> action_state" where
  "sampleState chartURL =
     \<lparr>archives = Map.empty,
      configuration = [RmiChartURLConfig \<mapsto> AString chartURL,
                       RmiNamespaceConfig \<mapsto> AString ''monitoring''],
      events = []\<rparr>"

section \<open>The dispatch engine\<close>

text \<open>
  The entry point, the dependency resolver, the worker pool and the callback dispatcher
  are exercised by the test driver (\<open>runTestCases\<close>, \<open>startReconciler\<close>,
  \<open>newComponentReconciler\<close>), which posts requests and reads responses and callbacks;
  the functions themselves are outside the available sources. Each definition of this
  section follows the words of the specification.
\<close>

subsection \<open>Requests\<close>

text \<open>
  Modelled from the spec: the operation kind of a request (section 3, "an operation
  kind (reconcile | delete)"); the type is declared outside the available sources.
  \<open>UnsupportedOperation\<close> is any other kind named by a request.
\<close>

datatype operation_kind = Reconcile | Delete | UnsupportedOperation string

text \<open>
  Modelled from the spec: the failure kinds of section 7 that a job or a callback
  delivery can end with (\<open>ActionError\<close>, \<open>TimeoutError\<close>, \<open>CallbackDeliveryError\<close>);
  the error types are declared outside the available sources.
\<close>

datatype failure = ActionError string | TimeoutError | CallbackDeliveryError

text \<open>
  Modelled from the spec: the Callback Message of section 3, "{status, error-or-nil}";
  the type \<open>reconciler.CallbackMessage\<close> is declared outside the available sources, the
  test driver builds it with these two fields.
\<close>

record callback_message =
  msg_Status :: status
  msg_Error :: "failure option"

text \<open>
  Modelled from the spec: the callback sink of section 3, "an HTTP URL, or a direct
  function reference"; the fields \<open>CallbackURL\<close> and \<open>CallbackFunc\<close> are declared
  outside the available sources.
\<close>

datatype sink = HttpSink string | FuncSink "callback_message \<Rightarrow> failure option"

text \<open>
  Modelled from the spec: the Reconciliation Request of section 3; the type
  \<open>reconciler.Reconciliation\<close> is declared outside the available sources, the test
  driver fills these fields. The callback sink is optional. The test driver names no
  operation kind: its requests are reconciliations.
\<close>

record reconciliation =
  ComponentsReady :: "string list"
  Component :: string
  Namespace :: string
  Version :: string
  Profile :: string
  Configuration :: "(string \<times> any) list"
  Kubeconfig :: string
  InstallCRD :: bool
  CorrelationID :: string
  Operation :: operation_kind
  Callback :: "sink option"

subsection \<open>Request validator\<close>

text \<open>
  Modelled from the spec: the three ways a request can be malformed (section 4.1, checks
  (a), (b) and (c)); the validator is outside the available sources.
\<close>

datatype validation_error =
    RequiredFieldMissing
  | OperationNotSupported
  | ConfigurationValueNotScalar

text \<open>
  Modelled from the spec: the allowed configuration values (section 3, "value may be
  string/bool/int/float"); the check is outside the available sources.
\<close>

definition scalarValue :: "any \<Rightarrow> bool" where
  "scalarValue v =
     (case v of AString x \<Rightarrow> True | ABool x \<Rightarrow> True | AInt x \<Rightarrow> True | AFloat x \<Rightarrow> True
      | ANil \<Rightarrow> False | AComposite \<Rightarrow> False)"

text \<open>
  Modelled from the spec: the Request Validator of section 4.1, which is outside the
  available sources. It checks, in order: (a) the required scalar fields are present
  (section 3: "component, namespace, version, and (kubeconfig OR profile validity) must
  be non-empty"); (b) the operation is a supported kind; (c) the configuration values
  are of an allowed scalar type. \<open>None\<close> admits the request.
\<close>

definition Validate :: "reconciliation \<Rightarrow> validation_error option" where
  "Validate r =
     (if Component r = [] \<or> Namespace r = [] \<or> Version r = []
         \<or> (Kubeconfig r = [] \<and> Profile r = [])
      then Some RequiredFieldMissing
      else if (case Operation r of UnsupportedOperation k \<Rightarrow> True | _ \<Rightarrow> False)
      then Some OperationNotSupported
      else if \<not> list_all (\<lambda>kv. scalarValue (snd kv)) (Configuration r)
      then Some ConfigurationValueNotScalar
      else None)"

subsection \<open>Dependency resolver\<close>

text \<open>
  Modelled from the spec: the Dependency Resolver of section 4.2, which is outside the
  available sources: "Resolve(requiredDependencies, readyComponents) (missing, ok).
  Computes set difference required - ready. Ordering of required is the configuration
  order; missing preserves that order."
\<close>

definition Resolve :: "string list \<Rightarrow> string list \<Rightarrow> string list \<times> bool" where
  "Resolve requiredDependencies readyComponents =
     (let missing = filter (\<lambda>d. d \<notin> set readyComponents) requiredDependencies
      in (missing, missing = []))"

subsection \<open>Jobs and the worker\<close>

text \<open>
  Modelled from the spec: the Job of section 3, which is outside the available sources:
  the request, the current status and the terminal error.
\<close>

record job =
  job_Request :: reconciliation
  job_Status :: status
  job_Error :: "failure option"

text \<open>
  Modelled from the spec: a job on admission (section 3: "NotStarted is the initial
  value before a worker picks up the job"); the constructor is outside the available
  sources.
\<close>

definition newJob :: "reconciliation \<Rightarrow> job" where
  "newJob r = \<lparr>job_Request = r, job_Status = NotStarted, job_Error = None\<rparr>"

text \<open>
  Modelled from the spec: how the run of the Action Runner ends for the worker
  (sections 3 and 4.3, outside the available sources): it completes with readiness
  confirmed, it returns an error or the readiness watch times out, it reports a
  non-retryable domain failure, or the deadline of the worker context elapses before it
  returns.
\<close>

datatype action_outcome =
    Completed
  | ReturnedError failure
  | ReportedFailure failure
  | DeadlineElapsed

text \<open>
  Modelled from the spec: the terminal status computed from the result of the Action
  Runner (transition table of section 3, steps 4 and 5 of section 4.3, outside the
  available sources). On the deadline path the job is forced to \<open>Error\<close> with a
  timeout-kind error.
\<close>

definition terminalStatus :: "action_outcome \<Rightarrow> status \<times> failure option" where
  "terminalStatus outcome =
     (case outcome of
        Completed \<Rightarrow> (Success, None)
      | ReturnedError err \<Rightarrow> (Error, Some err)
      | ReportedFailure err \<Rightarrow> (Failed, Some err)
      | DeadlineElapsed \<Rightarrow> (Error, Some TimeoutError))"

text \<open>
  Modelled from the spec: the terminal statuses (section 3: "Failed and Error are both
  terminal-failure variants; Success is terminal-success"); no function of the available
  sources decides this (\<open>finalStatus\<close> of the test driver is the caller's rule).
\<close>

definition terminal :: "status \<Rightarrow> bool" where
  "terminal s = (s = Success \<or> s = Error \<or> s = Failed)"

text \<open>
  Modelled from the spec: step 2 of section 4.3, outside the available sources: the
  worker claims the job, the status goes from \<open>NotStarted\<close> to \<open>Running\<close> and the
  change is published. The result is the job and the messages handed to the Callback
  Dispatcher.
\<close>

definition claimJob :: "job \<Rightarrow> job \<times> callback_message list" where
  "claimJob j =
     (if job_Status j = NotStarted
      then (j\<lparr>job_Status := Running\<rparr>, [\<lparr>msg_Status = Running, msg_Error = None\<rparr>])
      else (j, []))"

text \<open>
  Modelled from the spec: one tick of the Heartbeat Sender of section 4.6, outside the
  available sources: "if the job is still Running, emits a non-terminal Callback Message
  with the current status; emits nothing once the job reaches a terminal state".
\<close>

definition heartbeatTick :: "job \<Rightarrow> callback_message list" where
  "heartbeatTick j =
     (if job_Status j = Running
      then [\<lparr>msg_Status = job_Status j, msg_Error = None\<rparr>]
      else [])"

text \<open>
  Modelled from the spec: steps 4 and 5 of section 4.3, outside the available sources:
  when the Action Runner returns or the deadline elapses, the worker computes the
  terminal status and invokes the Callback Dispatcher with the terminal message. There
  is no transition after a terminal state (section 3).
\<close>

definition finishJob :: "action_outcome \<Rightarrow> job \<Rightarrow> job \<times> callback_message list" where
  "finishJob outcome j =
     (if job_Status j = Running
      then (j\<lparr>job_Status := fst (terminalStatus outcome), job_Error := snd (terminalStatus outcome)\<rparr>,
            [\<lparr>msg_Status = fst (terminalStatus outcome), msg_Error = snd (terminalStatus outcome)\<rparr>])
      else (j, []))"

text \<open>
  Modelled from the spec: the life of one accepted job in a worker (steps 2 to 5 of
  section 4.3, outside the available sources): claim, \<open>ticks\<close> heartbeats while the
  Action Runner runs, then the terminal step. The result is the job and the messages
  handed to the Callback Dispatcher, in send order.
\<close>

definition runJob :: "nat \<Rightarrow> action_outcome \<Rightarrow> job \<Rightarrow> job \<times> callback_message list" where
  "runJob ticks outcome j =
     (let (j1, m1) = claimJob j;
          m2 = concat (replicate ticks (heartbeatTick j1));
          (j2, m3) = finishJob outcome j1
      in (j2, m1 @ m2 @ m3))"

subsection \<open>Worker pool\<close>

text \<open>
  Modelled from the spec: the policy of the pool beyond its capacity (section 4.3:
  "either reject immediately with a capacity error or block until a slot frees"); the
  pool is outside the available sources.
\<close>

datatype backpressure = RejectAtCapacity | BlockUntilFree

text \<open>
  Modelled from the spec: the Worker Pool of section 4.3, which is outside the
  available sources: its fixed capacity, its policy, the jobs it has accepted, and the
  messages its workers have handed to the Callback Dispatcher, each with the index of
  its job.
\<close>

record worker_pool =
  pool_Capacity :: nat
  pool_Policy :: backpressure
  pool_Jobs :: "job list"
  pool_Dispatched :: "(nat \<times> callback_message) list"

text \<open>
  Modelled from the spec: a pool at startup (section 6: the capacity is "set at
  startup, immutable during operation"); the constructor is outside the available
  sources.
\<close>

definition newPool :: "nat \<Rightarrow> backpressure \<Rightarrow> worker_pool" where
  "newPool capacity policy =
     \<lparr>pool_Capacity = capacity, pool_Policy = policy, pool_Jobs = [], pool_Dispatched = []\<rparr>"

text \<open>
  Modelled from the spec: the number of jobs in the \<open>Running\<close> state (section 4.3,
  "number of simultaneously Running jobs"); the pool is outside the available sources.
\<close>

definition runningJobs :: "worker_pool \<Rightarrow> nat" where
  "runningJobs p = length (filter (\<lambda>j. job_Status j = Running) (pool_Jobs p))"

text \<open>
  Modelled from the spec: the number of accepted jobs that have not reached a terminal
  state, which is what occupies the pool when it rejects at capacity (section 4.3); the
  pool is outside the available sources.
\<close>

definition unfinishedJobs :: "worker_pool \<Rightarrow> nat" where
  "unfinishedJobs p = length (filter (\<lambda>j. \<not> terminal (job_Status j)) (pool_Jobs p))"

text \<open>
  Modelled from the spec: "Submit(job Job) (accepted bool)" of section 4.3, which is
  outside the available sources. A pool that rejects at capacity refuses the job when
  its capacity is used up; a pool that blocks keeps the job \<open>NotStarted\<close> until a slot
  frees.
\<close>

definition Submit :: "worker_pool \<Rightarrow> job \<Rightarrow> bool \<times> worker_pool" where
  "Submit p j =
     (if pool_Policy p = RejectAtCapacity \<and> pool_Capacity p \<le> unfinishedJobs p
      then (False, p)
      else (True, p\<lparr>pool_Jobs := pool_Jobs p @ [j]\<rparr>))"

text \<open>
  Modelled from the spec: a worker takes a slot of the pool for job \<open>i\<close> (section 2,
  item 7: "allocates a worker slot (bounded concurrency)"; section 4.3, step 2); the
  pool is outside the available sources. Without a free slot the job waits.
\<close>

definition claim :: "nat \<Rightarrow> worker_pool \<Rightarrow> worker_pool" where
  "claim i p =
     (if i < length (pool_Jobs p) \<and> runningJobs p < pool_Capacity p
      then p\<lparr>pool_Jobs := (pool_Jobs p)[i := fst (claimJob (pool_Jobs p ! i))],
             pool_Dispatched := pool_Dispatched p @ map (Pair i) (snd (claimJob (pool_Jobs p ! i)))\<rparr>
      else p)"

text \<open>
  Modelled from the spec: a tick of the Heartbeat Sender of job \<open>i\<close> (section 4.6),
  outside the available sources.
\<close>

definition tick :: "nat \<Rightarrow> worker_pool \<Rightarrow> worker_pool" where
  "tick i p =
     (if i < length (pool_Jobs p)
      then p\<lparr>pool_Dispatched := pool_Dispatched p @ map (Pair i) (heartbeatTick (pool_Jobs p ! i))\<rparr>
      else p)"

text \<open>
  Modelled from the spec: the worker of job \<open>i\<close> reaches the terminal step (section
  4.3, steps 4 and 5), outside the available sources.
\<close>

definition finish :: "nat \<Rightarrow> action_outcome \<Rightarrow> worker_pool \<Rightarrow> worker_pool" where
  "finish i outcome p =
     (if i < length (pool_Jobs p)
      then p\<lparr>pool_Jobs := (pool_Jobs p)[i := fst (finishJob outcome (pool_Jobs p ! i))],
             pool_Dispatched := pool_Dispatched p @ map (Pair i) (snd (finishJob outcome (pool_Jobs p ! i)))\<rparr>
      else p)"

subsection \<open>Entry point\<close>

text \<open>
  Modelled from the spec: the outcomes of the entry point (sections 4.8 and 6:
  \<open>OK\<close>, \<open>BadRequest\<close> with an error, \<open>PreconditionRequired\<close> with the required and
  the missing dependencies) and the capacity error of section 4.3; the response types
  are declared outside the available sources.
\<close>

datatype response =
    OK
  | BadRequest validation_error
  | PreconditionRequired "string list" "string list"
  | CapacityError

text \<open>
  Modelled from the spec: the entry point (section 2, item 8: it "parses and validates
  the inbound request, invokes the Dependency Resolver, and on success submits to the
  Worker Pool"; section 4.8 for the responses), which is outside the available sources.
  \<open>dependencies\<close> is the configured dependency list.
\<close>

definition entryPoint :: "string list \<Rightarrow> worker_pool \<Rightarrow> reconciliation \<Rightarrow> response \<times> worker_pool" where
  "entryPoint dependencies p r =
     (case Validate r of
        Some err \<Rightarrow> (BadRequest err, p)
      | None \<Rightarrow>
          (case Resolve dependencies (ComponentsReady r) of
             (missing, ok) \<Rightarrow>
               if \<not> ok then (PreconditionRequired dependencies missing, p)
               else (case Submit p (newJob r) of
                       (True, p') \<Rightarrow> (OK, p')
                     | (False, p') \<Rightarrow> (CapacityError, p'))))"

text \<open>
  Modelled from the spec: what can happen to a running engine, one step at a time: a
  request arrives at the entry point, a worker claims a job, a heartbeat ticks, a worker
  reaches its terminal step (sections 4.3, 4.6 and 5); the engine is outside the
  available sources. An execution is a list of such steps, in the order they take
  effect.
\<close>

datatype engine_step =
    Arrives reconciliation
  | Claims nat
  | Ticks nat
  | Finishes nat action_outcome

text \<open>
  Modelled from the spec: the effect of one step on the pool (sections 4.3 and 4.6),
  outside the available sources: an arrival goes through the entry point, the other
  steps through the worker of the job they name.
\<close>

definition step :: "string list \<Rightarrow> worker_pool \<Rightarrow> engine_step \<Rightarrow> worker_pool" where
  "step dependencies p s =
     (case s of
        Arrives r \<Rightarrow> snd (entryPoint dependencies p r)
      | Claims i \<Rightarrow> claim i p
      | Ticks i \<Rightarrow> tick i p
      | Finishes i outcome \<Rightarrow> finish i outcome p)"

text \<open>
  Modelled from the spec: the state of the pool after the steps of an execution, taken
  in order (section 5); the engine is outside the available sources.
\<close>

definition execution :: "string list \<Rightarrow> engine_step list \<Rightarrow> worker_pool \<Rightarrow> worker_pool" where
  "execution dependencies steps p = foldl (step dependencies) p steps"

subsection \<open>Callback dispatcher\<close>

text \<open>
  The retry configuration that \<open>startReconciler\<close> sets: \<open>o.RetryConfig.MaxRetries\<close>
  and \<open>o.RetryConfig.RetryDelay\<close> (a duration, here in seconds).
\<close>

record retry_config =
  MaxRetries :: nat
  RetryDelay :: nat

definition testRetryConfig :: retry_config where
  "testRetryConfig = \<lparr>MaxRetries = 3, RetryDelay = 2\<rparr>"

text \<open>
  Modelled from the spec: the result of one POST to the callback URL (section 4.7:
  failure is a "network error or non-2xx"); the HTTP call is outside the available
  sources.
\<close>

datatype post_result = NetworkError | HttpStatus nat

text \<open>
  Modelled from the spec: a POST succeeds when it is answered with a 2xx status (section
  4.7); the HTTP call is outside the available sources.
\<close>

definition postSucceeded :: "post_result \<Rightarrow> bool" where
  "postSucceeded res =
     (case res of NetworkError \<Rightarrow> False | HttpStatus code \<Rightarrow> 200 \<le> code \<and> code < 300)"

text \<open>
  Modelled from the spec: what the dispatcher does, in order: a POST of a message to a
  URL, a pause of a given length between two attempts, a direct call of an in-process
  function (section 4.7); the dispatcher is outside the available sources.
\<close>

datatype delivery_step = Post string callback_message | Pause nat | Invoke callback_message

text \<open>
  Modelled from the spec: delivery to an HTTP sink (section 4.7: "on failure, retry up
  to MaxRetries times with a fixed RetryDelay between attempts; after exhausting
  retries, the failure is surfaced to the worker"), outside the available sources.
  \<open>net\<close> is the result of each attempt, \<open>attempt\<close> the number of attempts made
  so far, \<open>retries\<close> the retries left.
\<close>

fun postWithRetries ::
  "(nat \<Rightarrow> post_result) \<Rightarrow> nat \<Rightarrow> string \<Rightarrow> callback_message \<Rightarrow> nat \<Rightarrow> nat
   \<Rightarrow> delivery_step list \<times> failure option" where
  "postWithRetries net delay url msg attempt 0 =
     ([Post url msg], if postSucceeded (net attempt) then None else Some CallbackDeliveryError)"
| "postWithRetries net delay url msg attempt (Suc retries) =
     (if postSucceeded (net attempt) then ([Post url msg], None)
      else (Post url msg # Pause delay # fst (postWithRetries net delay url msg (Suc attempt) retries),
            snd (postWithRetries net delay url msg (Suc attempt) retries)))"

text \<open>
  Modelled from the spec: "Send(sink, message) error" of section 4.7, outside the
  available sources. Without a sink delivery is skipped (section 3); an in-process
  function is called directly, without retry, and its error is propagated.
\<close>

definition Send ::
  "retry_config \<Rightarrow> (nat \<Rightarrow> post_result) \<Rightarrow> sink option \<Rightarrow> callback_message
   \<Rightarrow> delivery_step list \<times> failure option" where
  "Send rc net snk msg =
     (case snk of
        None \<Rightarrow> ([], None)
      | Some (HttpSink url) \<Rightarrow> postWithRetries net (RetryDelay rc) url msg 0 (MaxRetries rc)
      | Some (FuncSink f) \<Rightarrow> ([Invoke msg], f msg))"

text \<open>
  Modelled from the spec: a worker runs a job and hands each message to the dispatcher
  (section 4.3; section 4.7: a failed delivery "does not re-open the job"), outside the
  available sources. The result is the job and, for each message, what the dispatcher
  did and returned.
\<close>

definition executeJob ::
  "retry_config \<Rightarrow> (nat \<Rightarrow> post_result) \<Rightarrow> nat \<Rightarrow> action_outcome \<Rightarrow> job
   \<Rightarrow> job \<times> (delivery_step list \<times> failure option) list" where
  "executeJob rc net ticks outcome j =
     (case runJob ticks outcome j of
        (j', msgs) \<Rightarrow> (j', map (Send rc net (Callback (job_Request j))) msgs))"

subsection \<open>The requests of the test driver\<close>

text \<open>
  The configured dependencies of \<open>newComponentReconciler\<close> and the first two requests
  of \<open>runTestCases\<close> ("Missing dependencies" and "Invalid request: mandatory fields
  missing"), with the callback URL that \<open>newTestFct\<close> injects.
\<close>

definition testDependencies :: "string list" where
  "testDependencies = [''abc'', ''xyz'']"

definition testMissingDependencies :: reconciliation where
  "testMissingDependencies =
     \<lparr>ComponentsReady = [''abc'', ''def''], Component = ''component-1'',
      Namespace = ''inttest-comprecon'', Version = ''1.2.3'', Profile = ''unittest'',
      Configuration = [], Kubeconfig = ''xyz'', InstallCRD = False,
      CorrelationID = ''test-correlation-id'', Operation = Reconcile,
      Callback = Some (HttpSink ''https://httpbin.org/post'')\<rparr>"

definition testInvalidRequest :: reconciliation where
  "testInvalidRequest =
     \<lparr>ComponentsReady = [''abc'', ''xyz''], Component = ''component-1'',
      Namespace = ''inttest-comprecon'', Version = ''1.2.3'', Profile = [],
      Configuration = [], Kubeconfig = [], InstallCRD = False,
      CorrelationID = ''test-correlation-id'', Operation = Reconcile,
      Callback = Some (HttpSink ''https://httpbin.org/post'')\<rparr>"


subsection \<open>Observations\<close>




text \<open>
  The condition under which the upgrade is skipped, in the words of the comment in
  \<open>Run\<close> ("only run helm upgrade if the integration chart version is different";
  "proceed also with the upgrade if any of the chart versions cannot reliably be
  determined"), read off the fields of the release: the release has a chart with
  metadata, the version recorded there and the version of the chart URL are both
  non-empty and equal, and the release has the status "deployed". It is compared with
  \<open>skipHelmUpgrade\<close> below.
\<close>

definition sameVersionDeployed :: "string \<Rightarrow> release \<Rightarrow> bool" where
  "sameVersionDeployed upgradeVersion helmRelease =
     (case release_Chart helmRelease of
        None \<Rightarrow> False
      | Some c \<Rightarrow>
          (case chart_Metadata c of
             None \<Rightarrow> False
           | Some m \<Rightarrow>
               (case release_Info helmRelease of
                  None \<Rightarrow> False
                | Some info \<Rightarrow>
                    upgradeVersion \<noteq> [] \<and> metadata_Version m \<noteq> []
                    \<and> upgradeVersion = metadata_Version m
                    \<and> info_Status info = ''deployed'')))"

text \<open>
  The request of the test case "Install component from scratch": every dependency is
  ready and the required fields are set (the kubeconfig is read from the environment of
  the test; any non-empty text stands for it here).
\<close>

definition testInstallFromScratch :: reconciliation where
  "testInstallFromScratch =
     \<lparr>ComponentsReady = [''abc'', ''xyz''], Component = ''component-1'',
      Namespace = ''inttest-comprecon'', Version = ''0.0.0'', Profile = [],
      Configuration = [], Kubeconfig = ''kubeconfig'', InstallCRD = False,
      CorrelationID = ''test-correlation-id'', Operation = Reconcile,
      Callback = Some (HttpSink ''https://httpbin.org/post'')\<rparr>"




section \<open>Properties of the status model\<close>

text \<open>
  C2: for every status of the enumeration, \<open>finalStatus\<close> is true exactly for
  \<open>Error\<close> and \<open>Success\<close>; in particular it is false for \<open>Failed\<close>.
\<close>

theorem finalStatus_iff_Error_or_Success:
  "(finalStatus s \<longleftrightarrow> s = Error \<or> s = Success) \<and> \<not> finalStatus Failed
   \<and> \<not> finalStatus NotStarted \<and> \<not> finalStatus Running"
  by (simp add: finalStatus_def)


text \<open>
  \<open>Failed\<close> is a terminal status of the status model, and the test driver does not
  stop at it.
\<close>

lemma Failed_is_terminal_but_not_final: "terminal Failed \<and> \<not> finalStatus Failed"
  by (simp add: terminal_def finalStatus_def)

section \<open>Properties of the monitoring integration action\<close>

subsection \<open>What each function does to the state\<close>

lemma call_archives [simp]: "archives (call ev st) = archives st"
  by (simp add: call_def)

lemma call_configuration [simp]: "configuration (call ev st) = configuration st"
  by (simp add: call_def)

lemma call_events [simp]: "events (call ev st) = events st @ [ev]"
  by (simp add: call_def)

lemma setAuthCredentialOverrides_archives [simp]:
  "archives (setAuthCredentialOverrides u p st) = archives st"
  by (simp add: setAuthCredentialOverrides_def)

lemma setAuthCredentialOverrides_events [simp]:
  "events (setAuthCredentialOverrides u p st) = events st"
  by (simp add: setAuthCredentialOverrides_def)

lemma fetchChart_archives_le: "archives st \<subseteq>\<^sub>m archives (snd (fetchChart e u st))"
  by (auto simp: fetchChart_def map_le_def Let_def split: option.splits sum.splits)

lemma fetchChart_new_entry:
  "archives (snd (fetchChart e u st)) u' = Some a \<Longrightarrow> archives st u' \<noteq> Some a \<Longrightarrow>
   u' = u \<and> archives st u = None
   \<and> (\<exists>resp. httpDo e u = Inr resp \<and> StatusCode resp = 200 \<and> ReadAllBody resp = Inr a)
   \<and> events (snd (fetchChart e u st)) = events st @ [CallHttpDo u]"
  by (auto simp: fetchChart_def Let_def split: option.splits sum.splits if_splits)

lemma generatePassword_from_archives:
  "archives (snd (generatePassword_from e i k ret st)) = archives st"
  by (induction k arbitrary: i ret st) (auto simp: Let_def split: sum.splits)

lemma generatePassword_archives [simp]:
  "archives (snd (generatePassword e n st)) = archives st"
  by (simp add: generatePassword_def generatePassword_from_archives)

lemma generateOverrideMap_archives [simp]:
  "archives (snd (generateOverrideMap e t u p g st)) = archives st"
  by (simp add: generateOverrideMap_def Let_def split: result.splits)

lemma fetchPassword_archives [simp]:
  "archives (snd (fetchPassword e r n st)) = archives st"
  by (simp add: fetchPassword_def Let_def split: option.splits sum.splits)

lemma fetchPassword_configuration [simp]:
  "configuration (snd (fetchPassword e r n st)) = configuration st"
  by (simp add: fetchPassword_def Let_def split: option.splits sum.splits)

lemma fetchPassword_events:
  "events (snd (fetchPassword e r n st)) =
     events st @ CallKubernetesClientSet #
       (if kubernetesClientSet e = None
        then [CallKubeGetSecret n (''vmuser-'' @ RmiChartName @ ''-'' @ r)] else [])"
  by (simp add: fetchPassword_def Let_def split: option.splits sum.splits)

lemma delete_archives [simp]:
  "archives (snd (delete e cfg r st)) = archives st"
  by (simp add: delete_def Let_def split: option.splits)

lemma install_archives_le:
  "archives st \<subseteq>\<^sub>m archives (snd (install e t cfg u r n g st))"
proof -
  obtain x st1 where f: "fetchChart e u st = (x, st1)" by (cases "fetchChart e u st")
  have le: "archives st \<subseteq>\<^sub>m archives st1"
    using fetchChart_archives_le [of st e u] f by simp
  show ?thesis
  proof (cases x)
    case (Inl err)
    with f le show ?thesis by (simp add: install_def)
  next
    case (Inr chart)
    obtain y st2 where p: "generatePassword e 16 st1 = (y, st2)"
      by (cases "generatePassword e 16 st1")
    have a2: "archives st2 = archives st1"
      using generatePassword_archives [of e 16 st1] p by simp
    show ?thesis
    proof (cases y)
      case Panics
      with f Inr p a2 le show ?thesis by (simp add: install_def)
    next
      case (Returns z)
      show ?thesis
      proof (cases z)
        case (Inl err)
        with f \<open>x = Inr chart\<close> p a2 le Returns show ?thesis by (simp add: install_def)
      next
        case (Inr password)
        obtain w st3
          where g: "generateOverrideMap e t (InstanceID (task_Metadata t)) password g st2 = (w, st3)"
          by (cases "generateOverrideMap e t (InstanceID (task_Metadata t)) password g st2")
        have a3: "archives st3 = archives st2"
          using generateOverrideMap_archives [of e t "InstanceID (task_Metadata t)" password g st2] g
          by simp
        from f \<open>x = Inr chart\<close> p Returns Inr g a2 a3 le show ?thesis
          by (simp add: install_def Let_def split: result.splits option.splits)
      qed
    qed
  qed
qed

lemma upgrade_archives_le:
  "archives st \<subseteq>\<^sub>m archives (snd (upgrade e t cfg u r n g skip st))"
proof -
  obtain x st1 where p: "fetchPassword e r n st = (x, st1)" by (cases "fetchPassword e r n st")
  have a1: "archives st1 = archives st"
    using fetchPassword_archives [of e r n st] p by simp
  show ?thesis
  proof (cases x)
    case (Inl err)
    with p a1 show ?thesis by (simp add: upgrade_def)
  next
    case (Inr password)
    let ?st2 = "setAuthCredentialOverrides (InstanceID (task_Metadata t)) password st1"
    obtain y st3 where f: "fetchChart e u ?st2 = (y, st3)" by (cases "fetchChart e u ?st2")
    have le: "archives st \<subseteq>\<^sub>m archives st3"
      using fetchChart_archives_le [of ?st2 e u] f a1 by simp
    show ?thesis
    proof (cases y)
      case (Inl err)
      with p \<open>x = Inr password\<close> f le a1 show ?thesis by (simp add: upgrade_def Let_def)
    next
      case (Inr chart)
      obtain w st4
        where g: "generateOverrideMap e t (InstanceID (task_Metadata t)) password g st3 = (w, st4)"
        by (cases "generateOverrideMap e t (InstanceID (task_Metadata t)) password g st3")
      have a4: "archives st4 = archives st3"
        using generateOverrideMap_archives [of e t "InstanceID (task_Metadata t)" password g st3] g
        by simp
      from p \<open>x = Inr password\<close> f Inr g a4 le a1 show ?thesis
        by (simp add: upgrade_def Let_def split: result.splits option.splits)
    qed
  qed
qed

lemma Run_archives_le: "archives st \<subseteq>\<^sub>m archives (snd (Run e t st))"
proof -
  have i: "\<And>cfg u r n g ev1 ev2 ev3. archives st \<subseteq>\<^sub>m
      archives (snd (install e t cfg u r n g (call ev3 (call ev2 (call ev1 st)))))"
    using install_archives_le [where st = "call _ (call _ (call _ st))"] by simp
  have u: "\<And>cfg u r n g skip ev1 ev2 ev3. archives st \<subseteq>\<^sub>m
      archives (snd (upgrade e t cfg u r n g skip (call ev3 (call ev2 (call ev1 st)))))"
    using upgrade_archives_le [where st = "call _ (call _ (call _ st))"] by simp
  show ?thesis
    unfolding Run_def Let_def
    by (simp add: i u split: sum.splits option.splits prod.splits operation_type.splits result.splits)
qed

subsection \<open>The chart cache\<close>

text \<open>
  C7: the chart-archive cache only grows. Every entry of \<open>archives\<close> before a call of
  \<open>fetchChart\<close>, \<open>fetchPassword\<close>, \<open>install\<close>, \<open>upgrade\<close>, \<open>delete\<close> or \<open>Run\<close> is
  there after it with the same archive (\<open>\<subseteq>\<^sub>m\<close>): none is removed or replaced. An entry
  that \<open>fetchChart\<close> adds is for the URL it was called with, which had no entry, and
  holds the body of a response to a request for that URL whose status code is 200.
\<close>

theorem archives_only_grow:
  "archives st \<subseteq>\<^sub>m archives (snd (fetchChart e u st))
   \<and> archives (snd (fetchPassword e r n st)) = archives st
   \<and> archives st \<subseteq>\<^sub>m archives (snd (install e t cfg u r n g st))
   \<and> archives st \<subseteq>\<^sub>m archives (snd (upgrade e t cfg u r n g skip st))
   \<and> archives (snd (delete e cfg r st)) = archives st
   \<and> archives st \<subseteq>\<^sub>m archives (snd (Run e t st))
   \<and> (archives (snd (fetchChart e u st)) u' = Some a \<and> archives st u' \<noteq> Some a \<longrightarrow>
        u' = u \<and> archives st u = None
        \<and> (\<exists>resp. httpDo e u = Inr resp \<and> StatusCode resp = 200 \<and> ReadAllBody resp = Inr a)
        \<and> events (snd (fetchChart e u st)) = events st @ [CallHttpDo u])"
  using fetchChart_archives_le [of st e u] install_archives_le [of st e t cfg u r n g]
    upgrade_archives_le [of st e t cfg u r n g skip] Run_archives_le [of st e t]
    fetchChart_new_entry [of e u st u' a]
  by simp

theorem archives_only_grow_witness:
  "archives (snd (fetchChart sampleEnv ''https://charts.example.org/rmi-1.2.3.tgz''
       (sampleState ''https://charts.example.org/rmi-1.2.3.tgz'')))
     ''https://charts.example.org/rmi-1.2.3.tgz'' = Some ''tgz''
   \<and> archives (sampleState ''https://charts.example.org/rmi-1.2.3.tgz'')
        ''https://charts.example.org/rmi-1.2.3.tgz'' \<noteq> Some ''tgz''
   \<and> (\<exists>resp. httpDo sampleEnv ''https://charts.example.org/rmi-1.2.3.tgz'' = Inr resp
         \<and> StatusCode resp = 200 \<and> ReadAllBody resp = Inr ''tgz'')
   \<and> events (snd (fetchChart sampleEnv ''https://charts.example.org/rmi-1.2.3.tgz''
       (sampleState ''https://charts.example.org/rmi-1.2.3.tgz'')))
       = [CallHttpDo ''https://charts.example.org/rmi-1.2.3.tgz'']"
proof -
  let ?u = "''https://charts.example.org/rmi-1.2.3.tgz''"
  have new: "archives (snd (fetchChart sampleEnv ?u (sampleState ?u))) ?u = Some ''tgz''"
    by (simp add: fetchChart_def sampleState_def sampleEnv_def)
  have old: "archives (sampleState ?u) ?u \<noteq> Some ''tgz''"
    by (simp add: sampleState_def)
  have ev: "events (sampleState ?u) = []"
    by (simp add: sampleState_def)
  from archives_only_grow [where st = "sampleState ?u" and e = sampleEnv and u = ?u and u' = ?u
      and a = "''tgz''" and t = sampleTask and r = "''shoot-1''" and n = "''monitoring''"
      and cfg = 0 and g = "[]" and skip = True] new old ev
  show ?thesis by simp
qed



subsection \<open>Configuration strings\<close>

lemma getConfigString_string: "m k = Some (AString v) \<Longrightarrow> getConfigString m k = v"
  by (simp add: getConfigString_def)

lemma getConfigString_other: "(\<forall>v. m k \<noteq> Some (AString v)) \<Longrightarrow> getConfigString m k = []"
  by (auto simp: getConfigString_def split: option.splits any.splits)

text \<open>
  C8: \<open>getConfigString m k\<close> is the stored value when \<open>m\<close> maps \<open>k\<close> to a string and
  the empty string otherwise (it is a total function: it cannot fail). So when the key
  \<open>rmi.chartUrl\<close> or the key \<open>rmi.namespace\<close> is absent or holds no string, \<open>Run\<close>
  returns the error "missing required configuration" for one of the two keys and leaves
  the state as it was: no call to Helm or Kubernetes has been made.
\<close>

theorem getConfigString_total_and_Run_requires_configuration:
  "(m k = Some (AString v) \<longrightarrow> getConfigString m k = v)
   \<and> ((\<forall>v. m k \<noteq> Some (AString v)) \<longrightarrow> getConfigString m k = [])
   \<and> ((\<forall>v. configuration st RmiChartURLConfig \<noteq> Some (AString v))
        \<or> (\<forall>v. configuration st RmiNamespaceConfig \<noteq> Some (AString v)) \<longrightarrow>
        (Run e t st = (Returns (Some (ErrorString
            (''missing required configuration: '' @ RmiChartURLConfig))), st)
         \<or> Run e t st = (Returns (Some (ErrorString
            (''missing required configuration: '' @ RmiNamespaceConfig))), st))
        \<and> events (snd (Run e t st)) = events st)"
proof (intro conjI impI)
  assume "m k = Some (AString v)"
  then show "getConfigString m k = v" by (rule getConfigString_string)
next
  assume "\<forall>v. m k \<noteq> Some (AString v)"
  then show "getConfigString m k = []" by (rule getConfigString_other)
next
  assume a: "(\<forall>v. configuration st RmiChartURLConfig \<noteq> Some (AString v))
        \<or> (\<forall>v. configuration st RmiNamespaceConfig \<noteq> Some (AString v))"
  show "Run e t st = (Returns (Some (ErrorString
            (''missing required configuration: '' @ RmiChartURLConfig))), st)
         \<or> Run e t st = (Returns (Some (ErrorString
            (''missing required configuration: '' @ RmiNamespaceConfig))), st)"
  proof (cases "getConfigString (configuration st) RmiChartURLConfig = []")
    case True
    then show ?thesis by (simp add: Run_def)
  next
    case False
    then have "\<not> (\<forall>v. configuration st RmiChartURLConfig \<noteq> Some (AString v))"
      using getConfigString_other by blast
    with a have "getConfigString (configuration st) RmiNamespaceConfig = []"
      by (simp add: getConfigString_other)
    with False show ?thesis by (simp add: Run_def)
  qed
  then show "events (snd (Run e t st)) = events st" by auto
qed

theorem getConfigString_total_and_Run_requires_configuration_witness:
  "getConfigString [RmiNamespaceConfig \<mapsto> AString ''monitoring'', RmiChartURLConfig \<mapsto> AInt 7]
      RmiNamespaceConfig = ''monitoring''
   \<and> getConfigString [RmiNamespaceConfig \<mapsto> AString ''monitoring'', RmiChartURLConfig \<mapsto> AInt 7]
      RmiChartURLConfig = []
   \<and> Run sampleEnv sampleTask
        \<lparr>archives = Map.empty,
         configuration = [RmiNamespaceConfig \<mapsto> AString ''monitoring'', RmiChartURLConfig \<mapsto> AInt 7],
         events = []\<rparr>
      = (Returns (Some (ErrorString ''missing required configuration: rmi.chartUrl'')),
         \<lparr>archives = Map.empty,
          configuration = [RmiNamespaceConfig \<mapsto> AString ''monitoring'', RmiChartURLConfig \<mapsto> AInt 7],
          events = []\<rparr>)"
proof -
  let ?m = "[RmiNamespaceConfig \<mapsto> AString ''monitoring'', RmiChartURLConfig \<mapsto> AInt 7]"
  let ?st = "\<lparr>archives = Map.empty, configuration = ?m, events = []\<rparr>"
  have ne: "RmiNamespaceConfig \<noteq> RmiChartURLConfig"
    by (simp add: RmiNamespaceConfig_def RmiChartURLConfig_def)
  have h1: "?m RmiNamespaceConfig = Some (AString ''monitoring'')"
    using ne by simp
  have h2: "\<forall>v. ?m RmiChartURLConfig \<noteq> Some (AString v)"
    by simp
  have h3: "\<forall>v. configuration ?st RmiChartURLConfig \<noteq> Some (AString v)"
    by simp
  have h4: "Run sampleEnv sampleTask ?st \<noteq> (Returns (Some (ErrorString
            (''missing required configuration: '' @ RmiNamespaceConfig))), ?st)"
    by (simp add: Run_def getConfigString_def RmiNamespaceConfig_def RmiChartURLConfig_def)
  from getConfigString_total_and_Run_requires_configuration
         [where m = ?m and k = RmiNamespaceConfig and v = "''monitoring''" and st = ?st
            and e = sampleEnv and t = sampleTask]
       getConfigString_total_and_Run_requires_configuration
         [where m = ?m and k = RmiChartURLConfig and v = "[]" and st = ?st
            and e = sampleEnv and t = sampleTask]
       h1 h2 h3 h4
  show ?thesis by (simp add: RmiChartURLConfig_def)
qed

subsection \<open>Skipping the Helm upgrade\<close>

text \<open>
  The version that \<open>getChartVersionFromURL\<close> reads: the URL ends with \<open>rmi-\<close>, the
  version and \<open>.tgz\<close>, and the version is a non-empty sequence of letters, digits,
  dashes and dots; a URL of that form has a version.
\<close>

lemma matchChartVerExprAt_Some:
  assumes "matchChartVerExprAt s = Some ver"
  shows "s = ''rmi-'' @ ver @ ''.tgz'' \<and> ver \<noteq> [] \<and> list_all isVersionChar ver"
proof -
  let ?body = "drop 4 s"
  from assms have h: "take 4 s = ''rmi-''" "4 \<le> length ?body"
    "drop (length ?body - 4) ?body = ''.tgz''" "ver = take (length ?body - 4) ?body"
    "ver \<noteq> []" "list_all isVersionChar ver"
    by (auto simp: matchChartVerExprAt_def RmiChartName_def Let_def split: if_splits)
  have "s = take 4 s @ ?body" by (rule append_take_drop_id [symmetric])
  moreover have "?body = take (length ?body - 4) ?body @ drop (length ?body - 4) ?body"
    by (rule append_take_drop_id [symmetric])
  ultimately have "s = ''rmi-'' @ ver @ ''.tgz''" using h(1,3,4) by metis
  with h(5,6) show ?thesis by simp
qed

lemma matchChartVerExprAt_complete:
  assumes "ver \<noteq> []" and "list_all isVersionChar ver"
  shows "matchChartVerExprAt (''rmi-'' @ ver @ ''.tgz'') = Some ver"
  using assms by (simp add: matchChartVerExprAt_def RmiChartName_def Let_def)

lemma findChartVerExpr_Some:
  "findChartVerExpr s = Some ver \<Longrightarrow>
     \<exists>pre. s = pre @ ''rmi-'' @ ver @ ''.tgz'' \<and> ver \<noteq> [] \<and> list_all isVersionChar ver"
proof (induction s)
  case Nil
  then show ?case by simp
next
  case (Cons c cs)
  show ?case
  proof (cases "matchChartVerExprAt (c # cs)")
    case (Some v)
    with Cons.prems have "v = ver" by simp
    with Some matchChartVerExprAt_Some [of "c # cs" ver] have
      "c # cs = [] @ ''rmi-'' @ ver @ ''.tgz'' \<and> ver \<noteq> [] \<and> list_all isVersionChar ver"
      by simp
    then show ?thesis by blast
  next
    case None
    with Cons.prems have "findChartVerExpr cs = Some ver" by simp
    from Cons.IH [OF this] obtain pre
      where "cs = pre @ ''rmi-'' @ ver @ ''.tgz'' \<and> ver \<noteq> [] \<and> list_all isVersionChar ver"
      by blast
    then have "c # cs = (c # pre) @ ''rmi-'' @ ver @ ''.tgz'' \<and> ver \<noteq> []
        \<and> list_all isVersionChar ver"
      by simp
    then show ?thesis by blast
  qed
qed

lemma findChartVerExpr_complete:
  assumes "ver \<noteq> []" and "list_all isVersionChar ver"
  shows "findChartVerExpr (pre @ ''rmi-'' @ ver @ ''.tgz'') \<noteq> None"
proof (induction pre)
  case Nil
  have "findChartVerExpr (''rmi-'' @ ver @ ''.tgz'') = Some ver"
    using matchChartVerExprAt_complete [OF assms] by simp
  then show ?case by simp
next
  case (Cons c pre)
  then show ?case by (simp split: option.splits)
qed

lemma getChartVersionFromURL_sound:
  "getChartVersionFromURL chartURL \<noteq> [] \<Longrightarrow>
     \<exists>pre. chartURL = pre @ ''rmi-'' @ getChartVersionFromURL chartURL @ ''.tgz''
       \<and> list_all isVersionChar (getChartVersionFromURL chartURL)"
  using findChartVerExpr_Some [of chartURL]
  by (auto simp: getChartVersionFromURL_def split: option.splits)

lemma getChartVersionFromURL_complete:
  "ver \<noteq> [] \<Longrightarrow> list_all isVersionChar ver \<Longrightarrow>
     getChartVersionFromURL (pre @ ''rmi-'' @ ver @ ''.tgz'') \<noteq> []"
  using findChartVerExpr_complete [of ver pre] findChartVerExpr_Some [of "pre @ ''rmi-'' @ ver @ ''.tgz''"]
  by (auto simp: getChartVersionFromURL_def split: option.splits)

lemma skipHelmUpgrade_True_iff:
  "skipHelmUpgrade upgradeVersion (Some helmRelease) = Returns True \<longleftrightarrow>
     sameVersionDeployed upgradeVersion helmRelease"
  by (auto simp: skipHelmUpgrade_def sameVersionDeployed_def releaseVersionOf_def StatusDeployed_def
        Let_def split: option.splits)

text \<open>
  What \<open>fetchPassword\<close> returns, read off the answers of the Kubernetes client: the
  \<open>password\<close> entry of the secret \<open>vmuser-rmi-\<close> followed by the release name, when
  the client set is there, the secret can be read, has data, and the entry is not empty.
\<close>

lemma fetchPassword_stored:
  assumes "kubernetesClientSet e = None"
    and "kubeGetSecret e n (''vmuser-rmi-'' @ r) = Inr sec"
    and "secret_Data sec = Some data" and "data ''password'' = Some pw" and "pw \<noteq> []"
  shows "fetchPassword e r n st =
           (Inr pw, call (CallKubeGetSecret n (''vmuser-rmi-'' @ r)) (call CallKubernetesClientSet st))"
  using assms by (simp add: fetchPassword_def RmiChartName_def)

lemma fetchPassword_no_client_set:
  "kubernetesClientSet e = Some err \<Longrightarrow>
     fetchPassword e r n st = (Inl err, call CallKubernetesClientSet st)"
  by (simp add: fetchPassword_def)

lemma fetchPassword_no_secret:
  "kubernetesClientSet e = None \<Longrightarrow> kubeGetSecret e n (''vmuser-rmi-'' @ r) = Inl err \<Longrightarrow>
     fst (fetchPassword e r n st) = Inl err"
  by (simp add: fetchPassword_def RmiChartName_def)

lemma fetchPassword_nil_data:
  "kubernetesClientSet e = None \<Longrightarrow> kubeGetSecret e n (''vmuser-rmi-'' @ r) = Inr sec \<Longrightarrow>
   secret_Data sec = None \<Longrightarrow>
     fst (fetchPassword e r n st) = Inl (ErrorString ''secret data is empty'')"
  by (simp add: fetchPassword_def RmiChartName_def)

lemma fetchPassword_empty_password:
  "kubernetesClientSet e = None \<Longrightarrow> kubeGetSecret e n (''vmuser-rmi-'' @ r) = Inr sec \<Longrightarrow>
   secret_Data sec = Some data \<Longrightarrow> data ''password'' = None \<or> data ''password'' = Some [] \<Longrightarrow>
     fst (fetchPassword e r n st) = Inl (ErrorString ''missing/empty auth credentials'')"
  by (auto simp: fetchPassword_def RmiChartName_def)

lemma upgrade_skip:
  "upgrade e t cfg u r n g True st =
     (case fetchPassword e r n st of
        (Inl err, st1) \<Rightarrow>
          (Returns (Some (WithMessage err ''failed to fetch auth credentials from secret'')), st1)
      | (Inr password, st1) \<Rightarrow>
          (Returns None, setAuthCredentialOverrides (InstanceID (task_Metadata t)) password st1))"
  by (simp add: upgrade_def Let_def split: prod.splits sum.splits)

lemma upgrade_skip_events:
  "events (snd (upgrade e t cfg u r n g True st)) = events (snd (fetchPassword e r n st))"
  by (simp add: upgrade_skip split: prod.splits sum.splits)

lemma upgrade_skip_configuration:
  "fst (fetchPassword e r n st) = Inr password \<Longrightarrow>
     fst (upgrade e t cfg u r n g True st) = Returns None
     \<and> configuration (snd (upgrade e t cfg u r n g True st)) =
         (configuration st)(''vmuser.username'' \<mapsto> AString (InstanceID (task_Metadata t)),
                            ''vmuser.password'' \<mapsto> AString password)"
proof -
  assume a: "fst (fetchPassword e r n st) = Inr password"
  obtain x st1 where p: "fetchPassword e r n st = (x, st1)" by (cases "fetchPassword e r n st")
  have "configuration st1 = configuration st"
    using fetchPassword_configuration [of e r n st] p by simp
  with a p show ?thesis
    by (simp add: upgrade_skip setAuthCredentialOverrides_def)
qed

lemma upgrade_fails:
  "fst (fetchPassword e r n st) = Inl err \<Longrightarrow>
     fst (upgrade e t cfg u r n g skip st)
       = Returns (Some (WithMessage err ''failed to fetch auth credentials from secret''))
     \<and> configuration (snd (upgrade e t cfg u r n g skip st)) = configuration st"
proof -
  assume a: "fst (fetchPassword e r n st) = Inl err"
  obtain x st1 where p: "fetchPassword e r n st = (x, st1)" by (cases "fetchPassword e r n st")
  have "configuration st1 = configuration st"
    using fetchPassword_configuration [of e r n st] p by simp
  with a p show ?thesis
    by (simp add: upgrade_def)
qed

lemma upgrade_calls_helm:
  assumes "fetchPassword e r n st = (Inr password, st1)"
    and "fetchChart e u (setAuthCredentialOverrides (InstanceID (task_Metadata t)) password st1)
           = (Inr chart, st3)"
    and "generateOverrideMap e t (InstanceID (task_Metadata t)) password g st3 = (Returns ovr, st4)"
  shows "events (snd (upgrade e t cfg u r n g False st)) = events st4 @ [CallHelmUpgrade cfg r n chart ovr]"
  using assms by (simp add: upgrade_def Let_def split: option.splits)

lemma upgrade_last_event:
  assumes "fetchPassword e r n st = (Inr password, st1)"
    and "fst (fetchChart e u (setAuthCredentialOverrides (InstanceID (task_Metadata t)) password st1))
           = Inr chart"
    and "fst (generateOverrideMap e t (InstanceID (task_Metadata t)) password g
              (snd (fetchChart e u
                 (setAuthCredentialOverrides (InstanceID (task_Metadata t)) password st1))))
           = Returns ovr"
  shows "last (events (snd (upgrade e t cfg u r n g False st))) = CallHelmUpgrade cfg r n chart ovr"
proof -
  obtain st3
    where f: "fetchChart e u (setAuthCredentialOverrides (InstanceID (task_Metadata t)) password st1)
                = (Inr chart, st3)"
    using assms(2)
    by (cases "fetchChart e u (setAuthCredentialOverrides (InstanceID (task_Metadata t)) password st1)")
       simp
  obtain st4
    where g: "generateOverrideMap e t (InstanceID (task_Metadata t)) password g st3 = (Returns ovr, st4)"
    using assms(3) f
    by (cases "generateOverrideMap e t (InstanceID (task_Metadata t)) password g st3") simp
  from upgrade_calls_helm [OF assms(1) f g] show ?thesis by simp
qed

lemma Run_reconcile_existing:
  assumes "task_Type t = OperationTypeReconcile"
    and "getConfigString (configuration st) RmiChartURLConfig = chartURL" and "chartURL \<noteq> []"
    and "getConfigString (configuration st) RmiNamespaceConfig = namespace" and "namespace \<noteq> []"
    and "getConfigString (configuration st) RmiVmalertGroupsNum = groupsNum"
    and "ShootName (task_Metadata t) = releaseName"
    and "helmActionConfiguration e namespace = Inr (Some cfg)"
    and "helmHistory e cfg releaseName = (releases, None)"
    and "st3 = call (CallKubeDeleteResource ''deployment'' ''avs-bridge'' ''kyma-system'')
                 (call (CallHelmHistory cfg releaseName)
                   (call (CallHelmActionConfiguration namespace) st))"
  shows "Run e t st =
     (case skipHelmUpgrade (getChartVersionFromURL chartURL) (findLatestRevision releases) of
        Panics \<Rightarrow> (Panics, st3)
      | Returns skip \<Rightarrow> upgrade e t cfg chartURL releaseName namespace groupsNum skip st3)"
  using assms
  by (cases "skipHelmUpgrade (getChartVersionFromURL chartURL) (findLatestRevision releases)")
     (simp_all add: Run_def Let_def)

text \<open>
  C9 says that in the skip case \<open>Run\<close> writes \<open>vmuser.username\<close> and
  \<open>vmuser.password\<close> and returns nil. \<open>upgrade\<close> returns the error of
  \<open>fetchPassword\<close> before it writes anything: for the deployed release \<open>1.2.3\<close>
  and the chart URL of the same version, when the Kubernetes client set cannot be
  created, \<open>Run\<close> skips the upgrade, returns that error and leaves the configuration
  as it was.
\<close>

theorem Run_skip_case_returns_fetch_error_counterexample:
  "task_Type sampleTask = OperationTypeReconcile
   \<and> helmHistory sampleEnvNoCluster 0 ''shoot-1'' = ([sampleRelease], None)
   \<and> skipHelmUpgrade (getChartVersionFromURL ''https://charts.example.org/rmi-1.2.3.tgz'')
        (findLatestRevision [sampleRelease]) = Returns True
   \<and> fst (Run sampleEnvNoCluster sampleTask (sampleState ''https://charts.example.org/rmi-1.2.3.tgz''))
       = Returns (Some (WithMessage (External ''cluster unreachable'')
                    ''failed to fetch auth credentials from secret''))
   \<and> fst (Run sampleEnvNoCluster sampleTask (sampleState ''https://charts.example.org/rmi-1.2.3.tgz''))
       \<noteq> Returns None
   \<and> configuration (snd (Run sampleEnvNoCluster sampleTask
         (sampleState ''https://charts.example.org/rmi-1.2.3.tgz''))) ''vmuser.username'' = None
   \<and> configuration (snd (Run sampleEnvNoCluster sampleTask
         (sampleState ''https://charts.example.org/rmi-1.2.3.tgz''))) ''vmuser.password'' = None
   \<and> events (snd (Run sampleEnvNoCluster sampleTask
         (sampleState ''https://charts.example.org/rmi-1.2.3.tgz'')))
       = [CallHelmActionConfiguration ''monitoring'', CallHelmHistory 0 ''shoot-1'',
          CallKubeDeleteResource ''deployment'' ''avs-bridge'' ''kyma-system'',
          CallKubernetesClientSet]"
proof -
  let ?u3 = "''https://charts.example.org/rmi-1.2.3.tgz''"
  let ?st3 = "call (CallKubeDeleteResource ''deployment'' ''avs-bridge'' ''kyma-system'')
                 (call (CallHelmHistory 0 ''shoot-1'')
                   (call (CallHelmActionConfiguration ''monitoring'') (sampleState ?u3)))"
  have ne: "RmiChartURLConfig \<noteq> RmiNamespaceConfig" "RmiVmalertGroupsNum \<noteq> RmiNamespaceConfig"
    "RmiVmalertGroupsNum \<noteq> RmiChartURLConfig"
    by (simp_all add: RmiChartURLConfig_def RmiNamespaceConfig_def RmiVmalertGroupsNum_def)
  have h1: "task_Type sampleTask = OperationTypeReconcile"
    by (simp add: sampleTask_def)
  have h2: "getConfigString (configuration (sampleState ?u3)) RmiChartURLConfig = ?u3"
    using ne by (simp add: sampleState_def getConfigString_def)
  have h3: "?u3 \<noteq> []" by simp
  have h4: "getConfigString (configuration (sampleState ?u3)) RmiNamespaceConfig = ''monitoring''"
    by (simp add: sampleState_def getConfigString_def)
  have h5: "''monitoring'' \<noteq> []" by simp
  have h6: "getConfigString (configuration (sampleState ?u3)) RmiVmalertGroupsNum = []"
    using ne by (simp add: sampleState_def getConfigString_def)
  have h7: "ShootName (task_Metadata sampleTask) = ''shoot-1''"
    by (simp add: sampleTask_def)
  have h8: "helmActionConfiguration sampleEnvNoCluster ''monitoring'' = Inr (Some 0)"
    by (simp add: sampleEnvNoCluster_def sampleEnv_def)
  have h9: "helmHistory sampleEnvNoCluster 0 ''shoot-1'' = ([sampleRelease], None)"
    by (simp add: sampleEnvNoCluster_def sampleEnv_def)
  have latest: "findLatestRevision [sampleRelease] = Some sampleRelease"
    by (simp add: findLatestRevision_def sampleRelease_def)
  have v3: "getChartVersionFromURL ?u3 = ''1.2.3''"
    by code_simp
  have same: "sameVersionDeployed ''1.2.3'' sampleRelease"
    by (simp add: sameVersionDeployed_def sampleRelease_def sampleChart_def)
  have skip: "skipHelmUpgrade (getChartVersionFromURL ?u3) (findLatestRevision [sampleRelease])
                = Returns True"
    using same by (simp add: v3 latest skipHelmUpgrade_True_iff)
  have run: "Run sampleEnvNoCluster sampleTask (sampleState ?u3)
               = upgrade sampleEnvNoCluster sampleTask 0 ?u3 ''shoot-1'' ''monitoring'' [] True ?st3"
    using Run_reconcile_existing [OF h1 h2 h3 h4 h5 h6 h7 h8 h9 refl] skip by simp
  have ncs: "kubernetesClientSet sampleEnvNoCluster = Some (External ''cluster unreachable'')"
    by (simp add: sampleEnvNoCluster_def)
  have fp: "fetchPassword sampleEnvNoCluster ''shoot-1'' ''monitoring'' ?st3
              = (Inl (External ''cluster unreachable''), call CallKubernetesClientSet ?st3)"
    using ncs by (rule fetchPassword_no_client_set)
  have res: "Run sampleEnvNoCluster sampleTask (sampleState ?u3)
               = (Returns (Some (WithMessage (External ''cluster unreachable'')
                     ''failed to fetch auth credentials from secret'')),
                  call CallKubernetesClientSet ?st3)"
    by (simp add: run upgrade_skip fp)
  have cfg: "configuration (sampleState ?u3) ''vmuser.username'' = None"
    "configuration (sampleState ?u3) ''vmuser.password'' = None"
    by (simp_all add: sampleState_def RmiChartURLConfig_def RmiNamespaceConfig_def)
  have ev: "events (sampleState ?u3) = []"
    by (simp add: sampleState_def)
  from h1 h9 skip show ?thesis
    by (simp add: res cfg ev)
qed

text \<open>
  C9, amended: for a reconcile task whose release exists (the history query returns no
  error and \<open>findLatestRevision\<close> finds a release), \<open>Run\<close> sets \<open>skipHelmUpgrade\<close>
  exactly when the version in the chart URL (what stands between \<open>rmi-\<close> and the final
  \<open>.tgz\<close>) and the version recorded in the metadata of the release's chart are both
  non-empty and equal and the status of the release is "deployed", and it continues with
  \<open>upgrade\<close>. When it skips, the only calls after the three of \<open>Run\<close> are those that
  fetch the password (no chart is fetched, Helm is not called). If the secret
  \<open>vmuser-rmi-\<close> plus the release name holds a non-empty \<open>password\<close>, \<open>Run\<close>
  writes \<open>vmuser.username\<close> (the instance id) and \<open>vmuser.password\<close> (that password)
  to the configuration and returns nil. If the password cannot be fetched (no client
  set, no secret, no data, no or an empty password), \<open>Run\<close> returns that error with
  the message "failed to fetch auth credentials from secret" and writes nothing. When it
  does not skip and the password, the chart and the overrides are obtained, the last
  call is the Helm upgrade.
\<close>

theorem Run_skips_helm_upgrade_iff_same_version_deployed:
  assumes "task_Type t = OperationTypeReconcile"
    and "getConfigString (configuration st) RmiChartURLConfig = chartURL" and "chartURL \<noteq> []"
    and "getConfigString (configuration st) RmiNamespaceConfig = namespace" and "namespace \<noteq> []"
    and "getConfigString (configuration st) RmiVmalertGroupsNum = groupsNum"
    and "ShootName (task_Metadata t) = releaseName"
    and "helmActionConfiguration e namespace = Inr (Some cfg)"
    and "helmHistory e cfg releaseName = (releases, None)"
    and "findLatestRevision releases = Some helmRelease"
    and "st3 = call (CallKubeDeleteResource ''deployment'' ''avs-bridge'' ''kyma-system'')
                 (call (CallHelmHistory cfg releaseName)
                   (call (CallHelmActionConfiguration namespace) st))"
  shows
    "(skipHelmUpgrade (getChartVersionFromURL chartURL) (Some helmRelease) = Returns True
        \<longleftrightarrow> sameVersionDeployed (getChartVersionFromURL chartURL) helmRelease)
     \<and> (getChartVersionFromURL chartURL \<noteq> [] \<longrightarrow>
          (\<exists>pre. chartURL = pre @ ''rmi-'' @ getChartVersionFromURL chartURL @ ''.tgz''
             \<and> list_all isVersionChar (getChartVersionFromURL chartURL)))
     \<and> Run e t st =
         (case skipHelmUpgrade (getChartVersionFromURL chartURL) (Some helmRelease) of
            Panics \<Rightarrow> (Panics, st3)
          | Returns skip \<Rightarrow> upgrade e t cfg chartURL releaseName namespace groupsNum skip st3)
     \<and> (sameVersionDeployed (getChartVersionFromURL chartURL) helmRelease \<longrightarrow>
          events (snd (Run e t st)) =
            events st3 @ CallKubernetesClientSet #
              (if kubernetesClientSet e = None
               then [CallKubeGetSecret namespace (''vmuser-rmi-'' @ releaseName)]
               else [])
          \<and> (\<forall>sec data pw.
                kubernetesClientSet e = None
                \<and> kubeGetSecret e namespace (''vmuser-rmi-'' @ releaseName) = Inr sec
                \<and> secret_Data sec = Some data \<and> data ''password'' = Some pw \<and> pw \<noteq> [] \<longrightarrow>
                fst (Run e t st) = Returns None
                \<and> configuration (snd (Run e t st)) =
                    (configuration st)
                      (''vmuser.username'' \<mapsto> AString (InstanceID (task_Metadata t)),
                       ''vmuser.password'' \<mapsto> AString pw))
          \<and> (\<forall>err. kubernetesClientSet e = Some err \<longrightarrow>
                fst (Run e t st) =
                  Returns (Some (WithMessage err ''failed to fetch auth credentials from secret''))
                \<and> configuration (snd (Run e t st)) = configuration st)
          \<and> (\<forall>err. kubernetesClientSet e = None
                \<and> kubeGetSecret e namespace (''vmuser-rmi-'' @ releaseName) = Inl err \<longrightarrow>
                fst (Run e t st) =
                  Returns (Some (WithMessage err ''failed to fetch auth credentials from secret''))
                \<and> configuration (snd (Run e t st)) = configuration st)
          \<and> (\<forall>sec. kubernetesClientSet e = None
                \<and> kubeGetSecret e namespace (''vmuser-rmi-'' @ releaseName) = Inr sec
                \<and> secret_Data sec = None \<longrightarrow>
                fst (Run e t st) =
                  Returns (Some (WithMessage (ErrorString ''secret data is empty'')
                    ''failed to fetch auth credentials from secret''))
                \<and> configuration (snd (Run e t st)) = configuration st)
          \<and> (\<forall>sec data. kubernetesClientSet e = None
                \<and> kubeGetSecret e namespace (''vmuser-rmi-'' @ releaseName) = Inr sec
                \<and> secret_Data sec = Some data
                \<and> (data ''password'' = None \<or> data ''password'' = Some []) \<longrightarrow>
                fst (Run e t st) =
                  Returns (Some (WithMessage (ErrorString ''missing/empty auth credentials'')
                    ''failed to fetch auth credentials from secret''))
                \<and> configuration (snd (Run e t st)) = configuration st))
     \<and> (skipHelmUpgrade (getChartVersionFromURL chartURL) (Some helmRelease) = Returns False
          \<and> kubernetesClientSet e = None
          \<and> kubeGetSecret e namespace (''vmuser-rmi-'' @ releaseName) = Inr sec
          \<and> secret_Data sec = Some data \<and> data ''password'' = Some password \<and> password \<noteq> []
          \<and> fst (fetchChart e chartURL
                 (setAuthCredentialOverrides (InstanceID (task_Metadata t)) password
                    (call (CallKubeGetSecret namespace (''vmuser-rmi-'' @ releaseName))
                       (call CallKubernetesClientSet st3)))) = Inr chart
          \<and> fst (generateOverrideMap e t (InstanceID (task_Metadata t)) password groupsNum
                 (snd (fetchChart e chartURL
                    (setAuthCredentialOverrides (InstanceID (task_Metadata t)) password
                       (call (CallKubeGetSecret namespace (''vmuser-rmi-'' @ releaseName))
                          (call CallKubernetesClientSet st3)))))) = Returns ovr
          \<longrightarrow> last (events (snd (Run e t st))) = CallHelmUpgrade cfg releaseName namespace chart ovr)"
proof -
  let ?uv = "getChartVersionFromURL chartURL"
  let ?skip = "skipHelmUpgrade ?uv (Some helmRelease)"
  let ?msg = "''failed to fetch auth credentials from secret''"
  have run: "Run e t st =
      (case ?skip of
         Panics \<Rightarrow> (Panics, st3)
       | Returns skip \<Rightarrow> upgrade e t cfg chartURL releaseName namespace groupsNum skip st3)"
    using Run_reconcile_existing [OF assms(1-9) assms(11)] assms(10) by simp
  have iff: "?skip = Returns True \<longleftrightarrow> sameVersionDeployed ?uv helmRelease"
    by (rule skipHelmUpgrade_True_iff)
  have ver: "\<exists>pre. chartURL = pre @ ''rmi-'' @ ?uv @ ''.tgz'' \<and> list_all isVersionChar ?uv"
    if "?uv \<noteq> []"
    using that by (rule getChartVersionFromURL_sound)
  have skipped: "Run e t st = upgrade e t cfg chartURL releaseName namespace groupsNum True st3"
    if "sameVersionDeployed ?uv helmRelease"
    using that iff run by simp
  have st3cfg: "configuration st3 = configuration st"
    using assms(11) by simp
  have failed: "fst (Run e t st) = Returns (Some (WithMessage err ?msg))
                \<and> configuration (snd (Run e t st)) = configuration st"
    if "sameVersionDeployed ?uv helmRelease"
      and "fst (fetchPassword e releaseName namespace st3) = Inl err" for err
    using skipped [OF that(1)] upgrade_fails [OF that(2), of t cfg chartURL groupsNum True] st3cfg
    by simp
  have c_ev: "events (snd (Run e t st)) =
            events st3 @ CallKubernetesClientSet #
              (if kubernetesClientSet e = None
               then [CallKubeGetSecret namespace (''vmuser-rmi-'' @ releaseName)]
               else [])"
    if "sameVersionDeployed ?uv helmRelease"
    using skipped [OF that] by (simp add: upgrade_skip_events fetchPassword_events RmiChartName_def)
  have c_ok: "fst (Run e t st) = Returns None
            \<and> configuration (snd (Run e t st)) =
                (configuration st)
                  (''vmuser.username'' \<mapsto> AString (InstanceID (task_Metadata t)),
                   ''vmuser.password'' \<mapsto> AString pw)"
    if "sameVersionDeployed ?uv helmRelease"
      and "kubernetesClientSet e = None
           \<and> kubeGetSecret e namespace (''vmuser-rmi-'' @ releaseName) = Inr sec
           \<and> secret_Data sec = Some data \<and> data ''password'' = Some pw \<and> pw \<noteq> []"
    for sec data pw
  proof -
    have "fst (fetchPassword e releaseName namespace st3) = Inr pw"
      using fetchPassword_stored [of e namespace releaseName sec data pw st3] that(2) by simp
    from upgrade_skip_configuration [OF this, of t cfg chartURL groupsNum] skipped [OF that(1)] st3cfg
    show ?thesis by simp
  qed
  have c_f1: "fst (Run e t st) = Returns (Some (WithMessage err ?msg))
              \<and> configuration (snd (Run e t st)) = configuration st"
    if "sameVersionDeployed ?uv helmRelease" and "kubernetesClientSet e = Some err" for err
    using failed [OF that(1), of err] fetchPassword_no_client_set [OF that(2), of releaseName namespace st3]
    by simp
  have c_f2: "fst (Run e t st) = Returns (Some (WithMessage err ?msg))
              \<and> configuration (snd (Run e t st)) = configuration st"
    if "sameVersionDeployed ?uv helmRelease"
      and "kubernetesClientSet e = None
           \<and> kubeGetSecret e namespace (''vmuser-rmi-'' @ releaseName) = Inl err" for err
    using failed [OF that(1), of err] fetchPassword_no_secret [of e namespace releaseName err st3] that(2)
    by simp
  have c_f3: "fst (Run e t st) = Returns (Some (WithMessage (ErrorString ''secret data is empty'') ?msg))
              \<and> configuration (snd (Run e t st)) = configuration st"
    if "sameVersionDeployed ?uv helmRelease"
      and "kubernetesClientSet e = None
           \<and> kubeGetSecret e namespace (''vmuser-rmi-'' @ releaseName) = Inr sec
           \<and> secret_Data sec = None" for sec
    using failed [OF that(1), of "ErrorString ''secret data is empty''"]
      fetchPassword_nil_data [of e namespace releaseName sec st3] that(2)
    by simp
  have c_f4: "fst (Run e t st)
                = Returns (Some (WithMessage (ErrorString ''missing/empty auth credentials'') ?msg))
              \<and> configuration (snd (Run e t st)) = configuration st"
    if "sameVersionDeployed ?uv helmRelease"
      and "kubernetesClientSet e = None
           \<and> kubeGetSecret e namespace (''vmuser-rmi-'' @ releaseName) = Inr sec
           \<and> secret_Data sec = Some data
           \<and> (data ''password'' = None \<or> data ''password'' = Some [])" for sec data
    using failed [OF that(1), of "ErrorString ''missing/empty auth credentials''"]
      fetchPassword_empty_password [of e namespace releaseName sec data st3] that(2)
    by simp
  have c_up: "last (events (snd (Run e t st))) = CallHelmUpgrade cfg releaseName namespace chart ovr"
    if "?skip = Returns False
          \<and> kubernetesClientSet e = None
          \<and> kubeGetSecret e namespace (''vmuser-rmi-'' @ releaseName) = Inr sec
          \<and> secret_Data sec = Some data \<and> data ''password'' = Some password \<and> password \<noteq> []
          \<and> fst (fetchChart e chartURL
                 (setAuthCredentialOverrides (InstanceID (task_Metadata t)) password
                    (call (CallKubeGetSecret namespace (''vmuser-rmi-'' @ releaseName))
                       (call CallKubernetesClientSet st3)))) = Inr chart
          \<and> fst (generateOverrideMap e t (InstanceID (task_Metadata t)) password groupsNum
                 (snd (fetchChart e chartURL
                    (setAuthCredentialOverrides (InstanceID (task_Metadata t)) password
                       (call (CallKubeGetSecret namespace (''vmuser-rmi-'' @ releaseName))
                          (call CallKubernetesClientSet st3)))))) = Returns ovr"
  proof -
    have fp: "fetchPassword e releaseName namespace st3 =
        (Inr password, call (CallKubeGetSecret namespace (''vmuser-rmi-'' @ releaseName))
                         (call CallKubernetesClientSet st3))"
      using fetchPassword_stored [of e namespace releaseName sec data password st3] that by simp
    from upgrade_last_event [OF fp, of chartURL t chart groupsNum ovr cfg] that run
    show ?thesis by simp
  qed
  show ?thesis
    apply (intro conjI)
    subgoal by (rule iff)
    subgoal using ver by blast
    subgoal by (rule run)
    subgoal
      apply (intro impI conjI allI)
      subgoal by (erule c_ev)
      subgoal for sec data pw using c_ok [of sec data pw] by simp
      subgoal for sec data pw using c_ok [of sec data pw] by simp
      subgoal for err using c_f1 [of err] by simp
      subgoal for err using c_f1 [of err] by simp
      subgoal for err using c_f2 [of err] by simp
      subgoal for err using c_f2 [of err] by simp
      subgoal for sec using c_f3 [of sec] by simp
      subgoal for sec using c_f3 [of sec] by simp
      subgoal for sec data using c_f4 [of sec data] by simp
      subgoal for sec data using c_f4 [of sec data] by simp
      done
    subgoal by (intro impI) (erule c_up)
    done
qed

theorem Run_skips_helm_upgrade_iff_same_version_deployed_witness:
  "sameVersionDeployed (getChartVersionFromURL ''https://charts.example.org/rmi-1.2.3.tgz'') sampleRelease
   \<and> (\<exists>pre. ''https://charts.example.org/rmi-1.2.3.tgz''
          = pre @ ''rmi-'' @ getChartVersionFromURL ''https://charts.example.org/rmi-1.2.3.tgz'' @ ''.tgz'')
   \<and> fst (Run sampleEnv sampleTask (sampleState ''https://charts.example.org/rmi-1.2.3.tgz''))
       = Returns None
   \<and> configuration (snd (Run sampleEnv sampleTask
         (sampleState ''https://charts.example.org/rmi-1.2.3.tgz''))) ''vmuser.username''
       = Some (AString ''instance-1'')
   \<and> configuration (snd (Run sampleEnv sampleTask
         (sampleState ''https://charts.example.org/rmi-1.2.3.tgz''))) ''vmuser.password''
       = Some (AString ''s3cret'')
   \<and> events (snd (Run sampleEnv sampleTask (sampleState ''https://charts.example.org/rmi-1.2.3.tgz'')))
       = [CallHelmActionConfiguration ''monitoring'', CallHelmHistory 0 ''shoot-1'',
          CallKubeDeleteResource ''deployment'' ''avs-bridge'' ''kyma-system'',
          CallKubernetesClientSet, CallKubeGetSecret ''monitoring'' ''vmuser-rmi-shoot-1'']
   \<and> fst (Run sampleEnvNoCluster sampleTask (sampleState ''https://charts.example.org/rmi-1.2.3.tgz''))
       = Returns (Some (WithMessage (External ''cluster unreachable'')
                    ''failed to fetch auth credentials from secret''))
   \<and> fst (Run sampleEnvNoSecret sampleTask (sampleState ''https://charts.example.org/rmi-1.2.3.tgz''))
       = Returns (Some (WithMessage (External ''secret not found'')
                    ''failed to fetch auth credentials from secret''))
   \<and> fst (Run sampleEnvNilSecretData sampleTask (sampleState ''https://charts.example.org/rmi-1.2.3.tgz''))
       = Returns (Some (WithMessage (ErrorString ''secret data is empty'')
                    ''failed to fetch auth credentials from secret''))
   \<and> fst (Run sampleEnvEmptyPassword sampleTask (sampleState ''https://charts.example.org/rmi-1.2.3.tgz''))
       = Returns (Some (WithMessage (ErrorString ''missing/empty auth credentials'')
                    ''failed to fetch auth credentials from secret''))
   \<and> skipHelmUpgrade (getChartVersionFromURL ''https://charts.example.org/rmi-1.2.4.tgz'')
         (Some sampleRelease) = Returns False
   \<and> last (events (snd (Run sampleEnv sampleTask
         (sampleState ''https://charts.example.org/rmi-1.2.4.tgz''))))
       = CallHelmUpgrade 0 ''shoot-1'' ''monitoring'' sampleChart
           \<lparr>runtime_instanceID = ''instance-1'', runtime_globalAccountID = ''ga'',
            runtime_subaccountID = ''sa'', runtime_shootName = ''shoot-1'',
            runtime_planName = ''plan'', runtime_region = ''eu'',
            runtime_dnsDomain = ''shoot.example.org'', auth_username = ''instance-1'',
            auth_password = ''s3cret'', vmalert_group = 0\<rparr>"
proof -
  let ?u3 = "''https://charts.example.org/rmi-1.2.3.tgz''"
  let ?u4 = "''https://charts.example.org/rmi-1.2.4.tgz''"
  let ?ovr = "\<lparr>runtime_instanceID = ''instance-1'', runtime_globalAccountID = ''ga'',
            runtime_subaccountID = ''sa'', runtime_shootName = ''shoot-1'',
            runtime_planName = ''plan'', runtime_region = ''eu'',
            runtime_dnsDomain = ''shoot.example.org'', auth_username = ''instance-1'',
            auth_password = ''s3cret'', vmalert_group = 0\<rparr>"
  have ne: "RmiChartURLConfig \<noteq> RmiNamespaceConfig" "RmiVmalertGroupsNum \<noteq> RmiNamespaceConfig"
    "RmiVmalertGroupsNum \<noteq> RmiChartURLConfig"
    by (simp_all add: RmiChartURLConfig_def RmiNamespaceConfig_def RmiVmalertGroupsNum_def)
  have h1: "task_Type sampleTask = OperationTypeReconcile"
    by (simp add: sampleTask_def)
  have h2: "getConfigString (configuration (sampleState u)) RmiChartURLConfig = u" for u
    using ne by (simp add: sampleState_def getConfigString_def)
  have h4: "getConfigString (configuration (sampleState u)) RmiNamespaceConfig = ''monitoring''" for u
    by (simp add: sampleState_def getConfigString_def)
  have h5: "''monitoring'' \<noteq> []"
    by simp
  have h6: "getConfigString (configuration (sampleState u)) RmiVmalertGroupsNum = []" for u
    using ne by (simp add: sampleState_def getConfigString_def)
  have h7: "ShootName (task_Metadata sampleTask) = ''shoot-1''"
    by (simp add: sampleTask_def)
  have h8: "helmActionConfiguration sampleEnv ''monitoring'' = Inr (Some 0)"
    "helmActionConfiguration sampleEnvNoCluster ''monitoring'' = Inr (Some 0)"
    "helmActionConfiguration sampleEnvNoSecret ''monitoring'' = Inr (Some 0)"
    "helmActionConfiguration sampleEnvNilSecretData ''monitoring'' = Inr (Some 0)"
    "helmActionConfiguration sampleEnvEmptyPassword ''monitoring'' = Inr (Some 0)"
    by (simp_all add: sampleEnv_def sampleEnvNoCluster_def sampleEnvNoSecret_def
          sampleEnvNilSecretData_def sampleEnvEmptyPassword_def)
  have h9: "helmHistory sampleEnv 0 ''shoot-1'' = ([sampleRelease], None)"
    "helmHistory sampleEnvNoCluster 0 ''shoot-1'' = ([sampleRelease], None)"
    "helmHistory sampleEnvNoSecret 0 ''shoot-1'' = ([sampleRelease], None)"
    "helmHistory sampleEnvNilSecretData 0 ''shoot-1'' = ([sampleRelease], None)"
    "helmHistory sampleEnvEmptyPassword 0 ''shoot-1'' = ([sampleRelease], None)"
    by (simp_all add: sampleEnv_def sampleEnvNoCluster_def sampleEnvNoSecret_def
          sampleEnvNilSecretData_def sampleEnvEmptyPassword_def)
  have h10: "findLatestRevision [sampleRelease] = Some sampleRelease"
    by (simp add: findLatestRevision_def sampleRelease_def)
  have u3: "?u3 \<noteq> []" and u4: "?u4 \<noteq> []"
    by simp_all
  have v3: "getChartVersionFromURL ?u3 = ''1.2.3''"
    by code_simp
  have v4: "getChartVersionFromURL ?u4 = ''1.2.4''"
    by code_simp
  have same: "sameVersionDeployed (getChartVersionFromURL ?u3) sampleRelease"
    by (simp add: v3 sameVersionDeployed_def sampleRelease_def sampleChart_def)
  have differ: "skipHelmUpgrade (getChartVersionFromURL ?u4) (Some sampleRelease) = Returns False"
    by (simp add: v4 skipHelmUpgrade_def releaseVersionOf_def sampleRelease_def sampleChart_def)
  have id: "InstanceID (task_Metadata sampleTask) = ''instance-1''"
    by (simp add: sampleTask_def)
  have ev: "events (sampleState u) = []" for u
    by (simp add: sampleState_def)
  have stored: "kubernetesClientSet sampleEnv = None
      \<and> kubeGetSecret sampleEnv ''monitoring'' (''vmuser-rmi-'' @ ''shoot-1'')
          = Inr \<lparr>secret_Data = Some [''password'' \<mapsto> ''s3cret'']\<rparr>
      \<and> secret_Data \<lparr>secret_Data = Some [''password'' \<mapsto> ''s3cret'']\<rparr>
          = Some [''password'' \<mapsto> ''s3cret'']
      \<and> [''password'' \<mapsto> ''s3cret''] ''password'' = Some ''s3cret'' \<and> ''s3cret'' \<noteq> []"
    by (simp add: sampleEnv_def)
  have nocluster: "kubernetesClientSet sampleEnvNoCluster = Some (External ''cluster unreachable'')"
    by (simp add: sampleEnvNoCluster_def)
  have nosecret: "kubernetesClientSet sampleEnvNoSecret = None
      \<and> kubeGetSecret sampleEnvNoSecret ''monitoring'' (''vmuser-rmi-'' @ ''shoot-1'')
          = Inl (External ''secret not found'')"
    by (simp add: sampleEnvNoSecret_def sampleEnv_def)
  have nildata: "kubernetesClientSet sampleEnvNilSecretData = None
      \<and> kubeGetSecret sampleEnvNilSecretData ''monitoring'' (''vmuser-rmi-'' @ ''shoot-1'')
          = Inr \<lparr>secret_Data = None\<rparr>
      \<and> secret_Data \<lparr>secret_Data = None\<rparr> = None"
    by (simp add: sampleEnvNilSecretData_def sampleEnv_def)
  have emptypw: "kubernetesClientSet sampleEnvEmptyPassword = None
      \<and> kubeGetSecret sampleEnvEmptyPassword ''monitoring'' (''vmuser-rmi-'' @ ''shoot-1'')
          = Inr \<lparr>secret_Data = Some [''password'' \<mapsto> []]\<rparr>
      \<and> secret_Data \<lparr>secret_Data = Some [''password'' \<mapsto> []]\<rparr> = Some [''password'' \<mapsto> []]
      \<and> ([''password'' \<mapsto> []] ''password'' = None \<or> [''password'' \<mapsto> []] ''password'' = Some [])"
    by (simp add: sampleEnvEmptyPassword_def sampleEnv_def)
  note thm3 = Run_skips_helm_upgrade_iff_same_version_deployed
      [where t = sampleTask and st = "sampleState ?u3", OF h1 h2 u3 h4 h5 h6 h7 _ _ h10 refl]
  note in_url = thm3 [OF h8(1) h9(1), THEN conjunct2, THEN conjunct1]
  note skipped = thm3 [OF h8(1) h9(1), THEN conjunct2, THEN conjunct2, THEN conjunct2,
      THEN conjunct1, THEN mp, OF same]
  note skipped_events = skipped [THEN conjunct1]
  note skipped_result = skipped [THEN conjunct2, THEN conjunct1, rule_format, OF stored]
  note f1 = thm3 [OF h8(2) h9(2), THEN conjunct2, THEN conjunct2, THEN conjunct2,
      THEN conjunct1, THEN mp, OF same, THEN conjunct2, THEN conjunct2, THEN conjunct1,
      rule_format, OF nocluster, THEN conjunct1]
  note f2 = thm3 [OF h8(3) h9(3), THEN conjunct2, THEN conjunct2, THEN conjunct2,
      THEN conjunct1, THEN mp, OF same, THEN conjunct2, THEN conjunct2, THEN conjunct2,
      THEN conjunct1, rule_format, OF nosecret, THEN conjunct1]
  note f3 = thm3 [OF h8(4) h9(4), THEN conjunct2, THEN conjunct2, THEN conjunct2,
      THEN conjunct1, THEN mp, OF same, THEN conjunct2, THEN conjunct2, THEN conjunct2,
      THEN conjunct2, THEN conjunct1, rule_format, OF nildata, THEN conjunct1]
  note f4 = thm3 [OF h8(5) h9(5), THEN conjunct2, THEN conjunct2, THEN conjunct2,
      THEN conjunct1, THEN mp, OF same, THEN conjunct2, THEN conjunct2, THEN conjunct2,
      THEN conjunct2, THEN conjunct2, rule_format, OF emptypw, THEN conjunct1]
  have ch: "fst (fetchChart sampleEnv u s) = Inr sampleChart" for u s
    by (simp add: fetchChart_def sampleEnv_def split: option.splits)
  have grp: "generateVmalertGroup sampleEnv ''instance-1'' [] = Returns 0"
    by (simp add: generateVmalertGroup_def Atoi_def DefaultVMAlertGroupsNum_def sampleEnv_def)
  have dom: "getDomain sampleEnv (kubeGetHost sampleEnv) = Returns ''shoot.example.org''"
    by (simp add: getDomain_def sampleEnv_def TrimPrefix_def)
  have ov: "fst (generateOverrideMap sampleEnv sampleTask (InstanceID (task_Metadata sampleTask))
              ''s3cret'' [] s) = Returns ?ovr" for s
    using grp dom by (simp add: generateOverrideMap_def Let_def sampleTask_def)
  note upgraded = Run_skips_helm_upgrade_iff_same_version_deployed
      [where t = sampleTask and st = "sampleState ?u4" and e = sampleEnv
         and sec = "\<lparr>secret_Data = Some [''password'' \<mapsto> ''s3cret'']\<rparr>"
         and data = "[''password'' \<mapsto> ''s3cret'']" and password = "''s3cret''"
         and chart = sampleChart and ovr = ?ovr,
       OF h1 h2 u4 h4 h5 h6 h7 h8(1) h9(1) h10 refl,
       THEN conjunct2, THEN conjunct2, THEN conjunct2, THEN conjunct2, THEN mp]
  have a0: "\<exists>pre. ?u3 = pre @ ''rmi-'' @ getChartVersionFromURL ?u3 @ ''.tgz''"
    using in_url v3 by auto
  have a: "fst (Run sampleEnv sampleTask (sampleState ?u3)) = Returns None
     \<and> configuration (snd (Run sampleEnv sampleTask (sampleState ?u3))) ''vmuser.username''
         = Some (AString ''instance-1'')
     \<and> configuration (snd (Run sampleEnv sampleTask (sampleState ?u3))) ''vmuser.password''
         = Some (AString ''s3cret'')
     \<and> events (snd (Run sampleEnv sampleTask (sampleState ?u3)))
       = [CallHelmActionConfiguration ''monitoring'', CallHelmHistory 0 ''shoot-1'',
          CallKubeDeleteResource ''deployment'' ''avs-bridge'' ''kyma-system'',
          CallKubernetesClientSet, CallKubeGetSecret ''monitoring'' ''vmuser-rmi-shoot-1'']"
    using skipped_events skipped_result id ev stored by simp
  have b: "last (events (snd (Run sampleEnv sampleTask (sampleState ?u4))))
       = CallHelmUpgrade 0 ''shoot-1'' ''monitoring'' sampleChart ?ovr"
    using upgraded differ stored ch ov by simp
  from same a0 a f1 f2 f3 f4 differ b show ?thesis by simp
qed

subsection \<open>The vmalert group\<close>

lemma Atoi_zero: "Atoi ''0'' = Some 0"
  by (simp add: Atoi_def isDigit_def digitsValue_def)

lemma generateVmalertGroup_in_range:
  assumes "\<And>seed n. 0 < n \<Longrightarrow> 0 \<le> randIntn e seed n \<and> randIntn e seed n < n"
    and "generateVmalertGroup e ident num = Returns g"
  shows "0 \<le> g \<and> g < (case Atoi num of None \<Rightarrow> DefaultVMAlertGroupsNum | Some n \<Rightarrow> n)"
  using assms(2) assms(1)
  by (auto simp: generateVmalertGroup_def Let_def split: if_splits)

lemma generateVmalertGroup_panics_iff:
  "generateVmalertGroup e ident num = Panics \<longleftrightarrow> (\<exists>n. Atoi num = Some n \<and> n \<le> 0)"
  by (auto simp: generateVmalertGroup_def Let_def DefaultVMAlertGroupsNum_def split: option.splits)

text \<open>
  C10 says that \<open>generateVmalertGroup\<close> returns for every \<open>num\<close>, with a group in
  \<open>[0, g)\<close>. For \<open>num = "0"\<close> the conversion succeeds with \<open>g = 0\<close>, the range is
  empty, and \<open>mrand.Intn(0)\<close> panics: only a conversion error falls back to the
  default. The same holds for every \<open>num\<close> that converts to a number below 1.
\<close>

theorem generateVmalertGroup_zero_groups_panics:
  "Atoi ''0'' = Some 0 \<and> generateVmalertGroup e ident ''0'' = Panics"
  by (simp add: generateVmalertGroup_def Atoi_zero)



section \<open>Properties of the dispatch engine\<close>

subsection \<open>Dependencies and validation\<close>

lemma Resolve_set: "set (fst (Resolve R C)) = set R - set C"
  by (auto simp: Resolve_def Let_def)

lemma Resolve_subseq: "subseq (fst (Resolve R C)) R"
  by (simp add: Resolve_def Let_def)

lemma Resolve_ok: "snd (Resolve R C) \<longleftrightarrow> set R \<subseteq> set C"
  by (auto simp: Resolve_def Let_def filter_empty_conv)

text \<open>
  A request that passes validation and whose ready components \<open>C\<close> do not cover the
  configured dependencies \<open>R\<close> is answered with \<open>PreconditionRequired\<close>, the full
  list \<open>R\<close> and \<open>missing = R - C\<close> in the order of \<open>R\<close>, and no job is admitted.
  The request of the test case "Missing dependencies" is such a request. What a request
  that fails validation and misses a dependency is answered depends on which of the two
  checks comes first.
\<close>

lemma valid_request_missing_dependencies:
  assumes "Validate r = None" and "\<not> set R \<subseteq> set (ComponentsReady r)"
  shows "entryPoint R p r =
           (PreconditionRequired R (filter (\<lambda>d. d \<notin> set (ComponentsReady r)) R), p)
         \<and> set (filter (\<lambda>d. d \<notin> set (ComponentsReady r)) R) = set R - set (ComponentsReady r)
         \<and> subseq (filter (\<lambda>d. d \<notin> set (ComponentsReady r)) R) R"
proof -
  obtain missing ok where res: "Resolve R (ComponentsReady r) = (missing, ok)"
    by (cases "Resolve R (ComponentsReady r)")
  have "\<not> ok"
    using Resolve_ok [of R "ComponentsReady r"] res assms(2) by simp
  moreover have "missing = filter (\<lambda>d. d \<notin> set (ComponentsReady r)) R"
    using res by (simp add: Resolve_def Let_def)
  ultimately have "entryPoint R p r =
      (PreconditionRequired R (filter (\<lambda>d. d \<notin> set (ComponentsReady r)) R), p)"
    using assms(1) res by (simp add: entryPoint_def)
  then show ?thesis by auto
qed

lemma test_case_missing_dependencies:
  "Validate testMissingDependencies = None
   \<and> \<not> set [''abc'', ''xyz''] \<subseteq> set (ComponentsReady testMissingDependencies)
   \<and> ComponentsReady testMissingDependencies = [''abc'', ''def'']
   \<and> entryPoint [''abc'', ''xyz''] (newPool 1 BlockUntilFree) testMissingDependencies
       = (PreconditionRequired [''abc'', ''xyz''] [''xyz''], newPool 1 BlockUntilFree)"
proof -
  have v: "Validate testMissingDependencies = None"
    by (simp add: Validate_def testMissingDependencies_def)
  have m: "\<not> set [''abc'', ''xyz''] \<subseteq> set (ComponentsReady testMissingDependencies)"
    by (simp add: testMissingDependencies_def)
  have c: "ComponentsReady testMissingDependencies = [''abc'', ''def'']"
    by (simp add: testMissingDependencies_def)
  from valid_request_missing_dependencies [OF v m, of "newPool 1 BlockUntilFree"] v m c
  show ?thesis by simp
qed

text \<open>
  C3: a request in which the component, the namespace or the version is empty, or in
  which both the kubeconfig and the profile are empty, is answered with \<open>BadRequest\<close>,
  and the pool is as it was: no job is admitted, so no worker runs for the request and
  no callback is handed to the dispatcher.
\<close>

theorem entryPoint_rejects_missing_required_field:
  assumes "Component r = [] \<or> Namespace r = [] \<or> Version r = []
           \<or> (Kubeconfig r = [] \<and> Profile r = [])"
  shows "entryPoint R p r = (BadRequest RequiredFieldMissing, p)
         \<and> step R p (Arrives r) = p
         \<and> pool_Jobs (snd (entryPoint R p r)) = pool_Jobs p
         \<and> pool_Dispatched (snd (entryPoint R p r)) = pool_Dispatched p"
  using assms by (simp add: entryPoint_def Validate_def step_def)

theorem entryPoint_rejects_missing_required_field_witness:
  "(Kubeconfig testInvalidRequest = [] \<and> Profile testInvalidRequest = [])
   \<and> entryPoint testDependencies (newPool 1 BlockUntilFree) testInvalidRequest
       = (BadRequest RequiredFieldMissing, newPool 1 BlockUntilFree)
   \<and> pool_Jobs (snd (entryPoint testDependencies (newPool 1 BlockUntilFree) testInvalidRequest)) = []"
proof -
  have h: "Kubeconfig testInvalidRequest = [] \<and> Profile testInvalidRequest = []"
    by (simp add: testInvalidRequest_def)
  then have "Component testInvalidRequest = [] \<or> Namespace testInvalidRequest = []
      \<or> Version testInvalidRequest = []
      \<or> (Kubeconfig testInvalidRequest = [] \<and> Profile testInvalidRequest = [])"
    by simp
  from entryPoint_rejects_missing_required_field
         [OF this, of testDependencies "newPool 1 BlockUntilFree"] h
  show ?thesis by (simp add: newPool_def)
qed



subsection \<open>The capacity of the pool\<close>


lemma runJob_newJob:
  "runJob ticks outcome (newJob r) =
     (\<lparr>job_Request = r, job_Status = fst (terminalStatus outcome),
       job_Error = snd (terminalStatus outcome)\<rparr>,
      \<lparr>msg_Status = Running, msg_Error = None\<rparr>
        # replicate ticks \<lparr>msg_Status = Running, msg_Error = None\<rparr>
        @ [\<lparr>msg_Status = fst (terminalStatus outcome), msg_Error = snd (terminalStatus outcome)\<rparr>])"
proof -
  have "concat (replicate ticks [x]) = replicate ticks x" for x :: callback_message
    by (induction ticks) simp_all
  then show ?thesis
    by (simp add: runJob_def claimJob_def newJob_def heartbeatTick_def finishJob_def)
qed

lemma length_filter_update:
  "i < length xs \<Longrightarrow>
     length (filter P (xs[i := y])) + (if P (xs ! i) then 1 else 0)
       = length (filter P xs) + (if P y then 1 else 0)"
proof (induction xs arbitrary: i)
  case Nil
  then show ?case by simp
next
  case (Cons x xs)
  show ?case
  proof (cases i)
    case 0
    then show ?thesis by simp
  next
    case (Suc k)
    with Cons.prems have "k < length xs" by simp
    from Cons.IH [OF this] Suc show ?thesis by simp
  qed
qed

lemma step_capacity [simp]: "pool_Capacity (step R p s) = pool_Capacity p"
  by (cases s)
     (auto simp: step_def entryPoint_def Submit_def claim_def tick_def finish_def
           split: option.splits prod.splits bool.splits if_splits)

lemma step_running:
  assumes "runningJobs p \<le> pool_Capacity p"
  shows "runningJobs (step R p s) \<le> pool_Capacity p"
proof (cases s)
  case (Arrives r)
  with assms show ?thesis
    by (auto simp: step_def entryPoint_def Submit_def runningJobs_def newJob_def
             split: option.splits prod.splits bool.splits if_splits)
next
  case (Claims i)
  show ?thesis
  proof (cases "i < length (pool_Jobs p) \<and> runningJobs p < pool_Capacity p")
    case True
    then have "runningJobs (claim i p) \<le> Suc (runningJobs p)"
      using length_filter_update [of i "pool_Jobs p" "\<lambda>j. job_Status j = Running"
                "fst (claimJob (pool_Jobs p ! i))"]
      by (simp add: claim_def runningJobs_def split: if_splits)
    with True Claims show ?thesis by (simp add: step_def)
  next
    case False
    with assms Claims show ?thesis by (auto simp: step_def claim_def)
  qed
next
  case (Ticks i)
  with assms show ?thesis by (simp add: step_def tick_def runningJobs_def)
next
  case (Finishes i outcome)
  show ?thesis
  proof (cases "i < length (pool_Jobs p)")
    case True
    have nr: "fst (terminalStatus outcome) \<noteq> Running"
      by (cases outcome) (simp_all add: terminalStatus_def)
    have "runningJobs (finish i outcome p) \<le> runningJobs p"
      using True nr length_filter_update [of i "pool_Jobs p" "\<lambda>j. job_Status j = Running"
                "fst (finishJob outcome (pool_Jobs p ! i))"]
      by (simp add: finish_def runningJobs_def finishJob_def split: if_splits)
    with assms Finishes show ?thesis by (simp add: step_def)
  next
    case False
    with assms Finishes show ?thesis by (simp add: step_def finish_def)
  qed
qed

lemma execution_running:
  "runningJobs p \<le> pool_Capacity p \<Longrightarrow>
     runningJobs (execution R steps p) \<le> pool_Capacity p
     \<and> pool_Capacity (execution R steps p) = pool_Capacity p"
proof (induction steps arbitrary: p)
  case Nil
  then show ?case by (simp add: execution_def)
next
  case (Cons s steps)
  have "runningJobs (step R p s) \<le> pool_Capacity (step R p s)"
    using Cons.prems step_running [of p R s] by simp
  from Cons.IH [OF this] show ?case by (simp add: execution_def)
qed

lemma three_jobs_one_slot:
  "map job_Status (pool_Jobs (execution testDependencies
      [Arrives testInstallFromScratch, Arrives testInstallFromScratch, Arrives testInstallFromScratch,
       Claims 0, Claims 1, Claims 2]
      (newPool 1 BlockUntilFree))) = [Running, NotStarted, NotStarted]
   \<and> map job_Status (pool_Jobs (execution testDependencies
      [Arrives testInstallFromScratch, Arrives testInstallFromScratch, Arrives testInstallFromScratch,
       Claims 0, Claims 1, Finishes 0 Completed, Claims 1, Claims 2]
      (newPool 1 BlockUntilFree))) = [Success, Running, NotStarted]"
  by (simp add: execution_def step_def entryPoint_def Validate_def Resolve_def Submit_def
        testInstallFromScratch_def testDependencies_def newPool_def newJob_def claim_def
        claimJob_def finish_def finishJob_def terminalStatus_def runningJobs_def)

text \<open>
  C5: in every execution of the engine, that is after every sequence of arrivals,
  claims, heartbeats and terminal steps, and so after each of its prefixes, the number
  of jobs in the \<open>Running\<close> state is at most the capacity of the pool, however many
  jobs were admitted.
\<close>

theorem running_jobs_within_capacity:
  "runningJobs (execution R steps (newPool capacity policy)) \<le> capacity
   \<and> runningJobs (execution R (take n steps) (newPool capacity policy)) \<le> capacity"
  using execution_running [of "newPool capacity policy" R steps]
        execution_running [of "newPool capacity policy" R "take n steps"]
  by (simp add: newPool_def runningJobs_def)

subsection \<open>Terminal callbacks\<close>

















lemma capacity_claim [simp]: "pool_Capacity (claim i p) = pool_Capacity p"
  by (simp add: claim_def)

lemma capacity_finish [simp]: "pool_Capacity (finish i outcome p) = pool_Capacity p"
  by (simp add: finish_def)















lemma claim_NotStarted:
  assumes "i < length (pool_Jobs p)" and "job_Status (pool_Jobs p ! i) = NotStarted"
    and "runningJobs p < pool_Capacity p"
  shows "pool_Dispatched (claim i p) = pool_Dispatched p @ [(i, \<lparr>msg_Status = Running, msg_Error = None\<rparr>)]
         \<and> job_Status (pool_Jobs (claim i p) ! i) = Running"
  using assms by (simp add: claim_def claimJob_def)


lemma entryPoint_not_OK:
  "fst (entryPoint R p r) \<noteq> OK \<Longrightarrow> snd (entryPoint R p r) = p"
  by (auto simp: entryPoint_def Submit_def split: option.splits prod.splits bool.splits if_splits)






subsection \<open>Callback delivery\<close>

lemma postWithRetries_unreachable:
  "(\<forall>i. \<not> postSucceeded (net i)) \<Longrightarrow>
     postWithRetries net delay url msg attempt retries =
       (Post url msg # concat (replicate retries [Pause delay, Post url msg]),
        Some CallbackDeliveryError)"
  by (induction retries arbitrary: attempt) simp_all

lemma count_posts:
  "length (filter (\<lambda>s. s = Post url msg)
      (Post url msg # concat (replicate k [Pause delay, Post url msg]))) = 1 + k"
  by (induction k) simp_all

lemma executeJob_job: "fst (executeJob rc net ticks outcome j) = fst (runJob ticks outcome j)"
  by (simp add: executeJob_def split: prod.splits)

text \<open>
  C6: when every attempt to reach an HTTP sink fails (network error or a status outside
  2xx), \<open>Send\<close> posts the message \<open>1 + MaxRetries\<close> times, pauses for \<open>RetryDelay\<close>
  between two consecutive attempts, and then gives up with a delivery error. The job of
  the worker is what it is without the dispatcher: its terminal status stands.
\<close>

theorem unreachable_sink_attempts:
  assumes "\<forall>i. \<not> postSucceeded (net i)"
  shows "Send rc net (Some (HttpSink url)) msg =
           (Post url msg # concat (replicate (MaxRetries rc) [Pause (RetryDelay rc), Post url msg]),
            Some CallbackDeliveryError)
         \<and> length (filter (\<lambda>s. s = Post url msg) (fst (Send rc net (Some (HttpSink url)) msg)))
             = 1 + MaxRetries rc
         \<and> fst (executeJob rc net ticks outcome j) = fst (runJob ticks outcome j)
         \<and> job_Status (fst (executeJob rc net ticks outcome (newJob r))) = fst (terminalStatus outcome)"
  using postWithRetries_unreachable [OF assms, of "RetryDelay rc" url msg 0 "MaxRetries rc"]
        count_posts [of url msg "MaxRetries rc" "RetryDelay rc"]
  by (simp add: Send_def executeJob_job runJob_newJob)

theorem unreachable_sink_attempts_witness:
  "(\<forall>i. \<not> postSucceeded ((\<lambda>i. if even i then NetworkError else HttpStatus 503) i))
   \<and> Send testRetryConfig (\<lambda>i. if even i then NetworkError else HttpStatus 503)
        (Some (HttpSink ''http://localhost:11111/callback''))
        \<lparr>msg_Status = Error, msg_Error = Some TimeoutError\<rparr>
      = ([Post ''http://localhost:11111/callback'' \<lparr>msg_Status = Error, msg_Error = Some TimeoutError\<rparr>,
          Pause 2,
          Post ''http://localhost:11111/callback'' \<lparr>msg_Status = Error, msg_Error = Some TimeoutError\<rparr>,
          Pause 2,
          Post ''http://localhost:11111/callback'' \<lparr>msg_Status = Error, msg_Error = Some TimeoutError\<rparr>,
          Pause 2,
          Post ''http://localhost:11111/callback'' \<lparr>msg_Status = Error, msg_Error = Some TimeoutError\<rparr>],
         Some CallbackDeliveryError)
   \<and> job_Status (fst (executeJob testRetryConfig (\<lambda>i. if even i then NetworkError else HttpStatus 503)
        1 DeadlineElapsed (newJob testInstallFromScratch))) = Error"
proof -
  have h: "\<forall>i. \<not> postSucceeded ((\<lambda>i. if even i then NetworkError else HttpStatus 503) i)"
    by (simp add: postSucceeded_def)
  have three: "replicate (MaxRetries testRetryConfig) x = [x, x, x]" for x :: "delivery_step list"
    by (simp add: testRetryConfig_def numeral_3_eq_3)
  have d: "RetryDelay testRetryConfig = 2"
    by (simp add: testRetryConfig_def)
  note w = unreachable_sink_attempts [OF h, of testRetryConfig "''http://localhost:11111/callback''"
      "\<lparr>msg_Status = Error, msg_Error = Some TimeoutError\<rparr>" 1 DeadlineElapsed
      "newJob testInstallFromScratch" testInstallFromScratch]
  have s: "Send testRetryConfig (\<lambda>i. if even i then NetworkError else HttpStatus 503)
        (Some (HttpSink ''http://localhost:11111/callback''))
        \<lparr>msg_Status = Error, msg_Error = Some TimeoutError\<rparr>
      = ([Post ''http://localhost:11111/callback'' \<lparr>msg_Status = Error, msg_Error = Some TimeoutError\<rparr>,
          Pause 2,
          Post ''http://localhost:11111/callback'' \<lparr>msg_Status = Error, msg_Error = Some TimeoutError\<rparr>,
          Pause 2,
          Post ''http://localhost:11111/callback'' \<lparr>msg_Status = Error, msg_Error = Some TimeoutError\<rparr>,
          Pause 2,
          Post ''http://localhost:11111/callback'' \<lparr>msg_Status = Error, msg_Error = Some TimeoutError\<rparr>],
         Some CallbackDeliveryError)"
    using w [THEN conjunct1] three d by simp
  have e: "job_Status (fst (executeJob testRetryConfig (\<lambda>i. if even i then NetworkError else HttpStatus 503)
        1 DeadlineElapsed (newJob testInstallFromScratch))) = Error"
    using w [THEN conjunct2, THEN conjunct2, THEN conjunct2] by (simp add: terminalStatus_def)
  from h s e show ?thesis by blast
qed


end
